theory Spec2Isabelle
  imports Complex_Main
begin

section \<open>JavaScript values and numbers\<close>

text \<open>
  The visual is TypeScript; the values the host stores in a data view's objects are
  untyped at run time. A property value is a boolean, a number, a string, or absent
  (\<open>undefined\<close>).
\<close>

datatype jsval = JUndefined | JBool bool | JNum real | JStr string

text \<open>The truth value an \<open>if\<close> sees.\<close>

fun truthy :: "jsval \<Rightarrow> bool" where
  "truthy JUndefined = False"
| "truthy (JBool b) = b"
| "truthy (JNum r) = (r \<noteq> 0)"
| "truthy (JStr s) = (s \<noteq> [])"

text \<open>
  A number computed by the visual is a real, or \<open>None\<close> for a result that is not a finite
  number (NaN, or an infinity that every later operation here keeps non-finite).
  Rounding of IEEE doubles is not modelled: arithmetic is exact.
\<close>

type_synonym jsnum = "real option"

text \<open>
  What an arithmetic operator or a comparison makes of a value. The capabilities
  declare the numeric properties as numeric, so a string is never stored there; the
  parsing of a string into a number is left out and a string reads as NaN.
\<close>

fun to_number :: "jsval \<Rightarrow> jsnum" where
  "to_number JUndefined = None"
| "to_number (JBool b) = Some (if b then 1 else 0)"
| "to_number (JNum r) = Some r"
| "to_number (JStr s) = None"

definition js_mul :: "jsnum \<Rightarrow> jsnum \<Rightarrow> jsnum" where
  "js_mul a b = (case a of None \<Rightarrow> None | Some x \<Rightarrow> (case b of None \<Rightarrow> None | Some y \<Rightarrow> Some (x * y)))"

definition js_add :: "jsnum \<Rightarrow> jsnum \<Rightarrow> jsnum" where
  "js_add a b = (case a of None \<Rightarrow> None | Some x \<Rightarrow> (case b of None \<Rightarrow> None | Some y \<Rightarrow> Some (x + y)))"

definition js_sub :: "jsnum \<Rightarrow> jsnum \<Rightarrow> jsnum" where
  "js_sub a b = (case a of None \<Rightarrow> None | Some x \<Rightarrow> (case b of None \<Rightarrow> None | Some y \<Rightarrow> Some (x - y)))"

text \<open>Division by zero gives NaN or an infinity, never the 0 of HOL's \<open>x / 0\<close>.\<close>

definition js_div :: "jsnum \<Rightarrow> jsnum \<Rightarrow> jsnum" where
  "js_div a b = (case a of None \<Rightarrow> None | Some x \<Rightarrow>
     (case b of None \<Rightarrow> None | Some y \<Rightarrow> if y = 0 then None else Some (x / y)))"

definition js_sin :: "jsnum \<Rightarrow> jsnum" where
  "js_sin a = map_option sin a"

definition js_cos :: "jsnum \<Rightarrow> jsnum" where
  "js_cos a = map_option cos a"

text \<open>
  The index values of \<open>for (var j = j0; j < bound; j++)\<close> with a numeric bound: the bound
  need not be a whole number.
\<close>

function count_up :: "nat \<Rightarrow> real \<Rightarrow> nat list" where
  "count_up j bound = (if real j < bound then j # count_up (Suc j) bound else [])"
  by pat_completeness auto
termination
  by (relation "measure (\<lambda>(j, bound). nat \<lceil>bound - real j\<rceil>)") (simp, simp, linarith)

declare count_up.simps [simp del]

text \<open>A comparison with NaN is false, so the loop body never runs.\<close>

definition loop_indices :: "jsnum \<Rightarrow> nat list" where
  "loop_indices bound = (case bound of None \<Rightarrow> [] | Some b \<Rightarrow> count_up 0 b)"

text \<open>A number appended to a string, for the whole numbers the visual appends.\<close>

definition digit :: "nat \<Rightarrow> char" where
  "digit d = ''0123456789'' ! d"

fun string_of_nat :: "nat \<Rightarrow> string" where
  "string_of_nat n = (if n < 10 then [digit n] else string_of_nat (n div 10) @ [digit (n mod 10)])"

declare string_of_nat.simps [simp del]


section \<open>The host's data view\<close>

text \<open>
  The types of the host (\<open>DataView\<close> and its parts, the colour palette, the update
  options) are declared outside the repository; the fields below are the ones
  \<open>radarChart.ts\<close> reads. Optional parts are \<open>option\<close>s. The values of a value column
  are numbers, as the type of \<open>RadarChartDataPoint.value\<close> says; the values of a category
  column are strings; an identity is a token of the host, kept as a string.
\<close>

type_synonym DataViewObject = "string \<rightharpoonup> jsval"

type_synonym DataViewObjects = "string \<rightharpoonup> DataViewObject"

record DataViewMetadata =
  objects :: "DataViewObjects option"

record DataViewMetadataColumn =
  col_displayName :: string

type_synonym DataViewScopeIdentity = string

record DataViewCategoryColumn =
  cat_values :: "string list"

record DataViewValueColumn =
  col_values :: "real list"
  col_identity :: "DataViewScopeIdentity option"

record DataViewValueColumnGroup =
  group_name :: string

text \<open>
  \<open>categorical.values\<close>: the array of value columns, with its \<open>source\<close> and the groups
  that the host's \<open>grouped()\<close> returns.
\<close>

record DataViewValueColumns =
  columns :: "DataViewValueColumn list"
  values_source :: "DataViewMetadataColumn option"
  grouped :: "DataViewValueColumnGroup list"

record DataViewCategorical =
  dv_categories :: "DataViewCategoryColumn list option"
  dv_values :: "DataViewValueColumns option"

record DataView =
  metadata :: DataViewMetadata
  categorical :: "DataViewCategorical option"

text \<open>\<open>colors.getColorByIndex(i).value\<close>, for the palette the host hands to \<open>init\<close>.\<close>

type_synonym IDataColorPalette = "nat \<Rightarrow> string"

record IViewport =
  vp_width :: real
  vp_height :: real

record VisualUpdateOptions =
  dataViews :: "DataView option list option"
  viewport :: IViewport

record VisualObjectInstance =
  objectName :: string
  displayName :: string
  selector :: "unit option"
  properties :: "(string \<times> jsval) list"


section \<open>The visual's own data\<close>

record RadarChartDataPoint =
  "value" :: real
  categoryIndex :: nat
  seriesIndex :: nat
  color :: string

record RadarChartSeries =
  serie_displayName :: string
  key :: string
  index :: nat
  data :: "RadarChartDataPoint list"
  identity :: "DataViewScopeIdentity option"
  serie_color :: string

record RadarChartData =
  series :: "RadarChartSeries list"
  categories :: "string list"
  "values" :: "RadarChartDataPoint list"

record RadarChartSettings =
  width :: real
  height :: real
  catTotal :: nat
  catAxis :: "string list"
  radius :: real
  nodeRadius :: jsnum
  levels :: jsval
  levelsFormat :: "jsnum \<Rightarrow> string"
  maxValue :: jsnum

datatype error = TypeError

definition Factor :: real where "Factor = 1"
definition FactorLegend :: real where "FactorLegend = 85 / 100"
definition ToRight :: real where "ToRight = 1 / 2"
definition TwoPI :: real where "TwoPI = 2 * pi"
definition MarginFactor :: real where "MarginFactor = 85 / 100"


section \<open>converter\<close>

text \<open>The inner loop of \<open>converter\<close> (lines 223 to 236), from \<open>valueIndex\<close> on.\<close>

fun dataPoints_from :: "IDataColorPalette \<Rightarrow> nat \<Rightarrow> nat \<Rightarrow> real list \<Rightarrow> RadarChartDataPoint list" where
  "dataPoints_from colors sIndex valueIndex [] = []"
| "dataPoints_from colors sIndex valueIndex (v # vs) =
     \<lparr>value = v, categoryIndex = valueIndex, seriesIndex = sIndex, color = colors sIndex\<rparr>
       # dataPoints_from colors sIndex (Suc valueIndex) vs"

text \<open>The series object of lines 242 to 249.\<close>

definition serieInput :: "IDataColorPalette \<Rightarrow> string \<Rightarrow> nat \<Rightarrow> DataViewValueColumn \<Rightarrow> RadarChartDataPoint list \<Rightarrow> RadarChartSeries" where
  "serieInput colors legendTitle sIndex serie dataPoints =
     \<lparr>serie_displayName = legendTitle, key = ''Serie'' @ string_of_nat sIndex, index = sIndex,
      data = dataPoints, identity = col_identity serie, serie_color = colors sIndex\<rparr>"

text \<open>
  The outer loop (lines 213 to 252), from \<open>seriesIndex\<close> on, over the value columns not
  yet visited; the pair is the arrays \<open>series\<close> and \<open>values\<close> built so far. A column with
  no value adds no series.
\<close>

fun series_loop :: "IDataColorPalette \<Rightarrow> string \<Rightarrow> nat \<Rightarrow> DataViewValueColumn list
    \<Rightarrow> RadarChartSeries list \<times> RadarChartDataPoint list
    \<Rightarrow> RadarChartSeries list \<times> RadarChartDataPoint list" where
  "series_loop colors legendTitle sIndex [] acc = acc"
| "series_loop colors legendTitle sIndex (serie # rest) (sers, vals) =
     (let dataPoints = dataPoints_from colors sIndex 0 (col_values serie);
          vals' = vals @ dataPoints;
          sers' = (if length dataPoints > 0
                   then sers @ [serieInput colors legendTitle sIndex serie dataPoints]
                   else sers)
      in series_loop colors legendTitle (Suc sIndex) rest (sers', vals'))"

text \<open>
  \<open>converter\<close>. Reading \<open>categories\<close> of a missing \<open>categorical\<close>, element 0 of a missing
  \<open>categories\<close>, or \<open>values\<close> of the missing element 0 of an empty \<open>categories\<close> raises a
  TypeError. The format string and the formatted category value of lines 219 to 221
  and \<open>grouped[seriesIndex]\<close> are computed and never used; they are left out here and
  their array reads are listed by \<open>converter_reads\<close> below.
\<close>

definition converter :: "DataView \<Rightarrow> IDataColorPalette \<Rightarrow> error + RadarChartData" where
  "converter dataView colors =
     (case categorical dataView of
        None \<Rightarrow> Inl TypeError
      | Some categorical' \<Rightarrow>
          (case dv_categories categorical' of
             None \<Rightarrow> Inl TypeError
           | Some [] \<Rightarrow> Inl TypeError
           | Some (category # _) \<Rightarrow>
               (let categoryValues = cat_values category;
                    cols = (case dv_values categorical' of None \<Rightarrow> [] | Some vs \<Rightarrow> columns vs);
                    legendTitle = (case dv_values categorical' of
                                     None \<Rightarrow> []
                                   | Some vs \<Rightarrow> (case values_source vs of
                                                  None \<Rightarrow> []
                                                | Some src \<Rightarrow> col_displayName src));
                    (sers, vals) = series_loop colors legendTitle 0 cols ([], [])
                in Inr \<lparr>series = sers, categories = categoryValues, values = vals\<rparr>)))"

text \<open>
  The indexed array reads of \<open>converter\<close>, in program order, each as the index read and
  the length of the array read: \<open>categories[0]\<close>; then for every \<open>seriesIndex\<close> the reads
  \<open>categorical.values[seriesIndex]\<close>, \<open>grouped[seriesIndex]\<close>,
  \<open>categoryValues[seriesIndex]\<close>, and for every \<open>valueIndex\<close> the reads
  \<open>categoryValues[valueIndex]\<close> and \<open>serie.values[valueIndex]\<close>. A read past the end of
  an array gives \<open>undefined\<close> and raises nothing by itself.
\<close>

definition series_reads :: "nat \<Rightarrow> nat \<Rightarrow> nat \<Rightarrow> nat \<Rightarrow> DataViewValueColumn \<Rightarrow> (nat \<times> nat) list" where
  "series_reads seriesLen groupedLen catLen sIndex serie =
     [(sIndex, seriesLen), (sIndex, groupedLen), (sIndex, catLen)]
     @ concat (map (\<lambda>valueIndex. [(valueIndex, catLen), (valueIndex, length (col_values serie))])
                 [0..<length (col_values serie)])"

definition converter_reads :: "DataView \<Rightarrow> (nat \<times> nat) list" where
  "converter_reads dataView =
     (case categorical dataView of
        None \<Rightarrow> []
      | Some categorical' \<Rightarrow>
          (case dv_categories categorical' of
             None \<Rightarrow> []
           | Some cats \<Rightarrow>
               (0, length cats) #
               (case cats of
                  [] \<Rightarrow> []
                | category # _ \<Rightarrow>
                    (case dv_values categorical' of
                       None \<Rightarrow> []
                     | Some vs \<Rightarrow>
                         concat (map (\<lambda>sIndex. series_reads (length (columns vs)) (length (grouped vs))
                                                 (length (cat_values category)) sIndex (columns vs ! sIndex))
                                   [0..<length (columns vs)])))))"

definition in_bounds :: "nat \<times> nat \<Rightarrow> bool" where
  "in_bounds r = (fst r < snd r)"


section \<open>The property getters\<close>

text \<open>\<open>obj[name]\<close>: a property that is not there reads as \<open>undefined\<close>.\<close>

definition get_prop :: "DataViewObject \<Rightarrow> string \<Rightarrow> jsval" where
  "get_prop obj name = (case obj name of None \<Rightarrow> JUndefined | Some v \<Rightarrow> v)"

text \<open>
  \<open>dataView && dataView.metadata.objects\<close> followed by \<open>objects[name]\<close>: the object of
  that name, if the data view, its objects and the object are all there.
\<close>

definition lookup_object :: "DataView option \<Rightarrow> string \<Rightarrow> DataViewObject option" where
  "lookup_object dataView name =
     (case dataView of
        None \<Rightarrow> None
      | Some dv \<Rightarrow> (case objects (metadata dv) of None \<Rightarrow> None | Some objs \<Rightarrow> objs name))"

definition getShowNodes :: "DataView option \<Rightarrow> jsval" where
  "getShowNodes dataView =
     (case lookup_object dataView ''nodes'' of
        Some nodes \<Rightarrow> get_prop nodes ''show''
      | None \<Rightarrow> JBool True)"

definition getSizeFactorNodes :: "DataView option \<Rightarrow> jsval" where
  "getSizeFactorNodes dataView =
     (case lookup_object dataView ''nodes'' of
        Some nodes \<Rightarrow>
          (let sizeFactor = get_prop nodes ''sizeFactor''
           in if sizeFactor \<noteq> JUndefined then sizeFactor else JNum 4)
      | None \<Rightarrow> JNum 4)"

definition getShapeNodes :: "DataView option \<Rightarrow> jsval" where
  "getShapeNodes dataView =
     (case lookup_object dataView ''nodes'' of
        Some nodes \<Rightarrow>
          (let shape = get_prop nodes ''shape''
           in if shape \<noteq> JUndefined then shape else JStr ''square'')
      | None \<Rightarrow> JStr ''square'')"

definition getShowLevelAxis :: "DataView option \<Rightarrow> jsval" where
  "getShowLevelAxis dataView =
     (case lookup_object dataView ''levelAxis'' of
        Some levelAxis \<Rightarrow> get_prop levelAxis ''show''
      | None \<Rightarrow> JBool True)"

definition getFormatLevelAxis :: "DataView option \<Rightarrow> jsval" where
  "getFormatLevelAxis dataView =
     (case lookup_object dataView ''levelAxis'' of
        Some levelAxis \<Rightarrow> get_prop levelAxis ''format''
      | None \<Rightarrow> JStr ''%'')"

definition getSegmentsLevelAxis :: "DataView option \<Rightarrow> jsval" where
  "getSegmentsLevelAxis dataView =
     (case lookup_object dataView ''levelAxis'' of
        Some levelAxis \<Rightarrow>
          (let segments = get_prop levelAxis ''segments''
           in if segments \<noteq> JUndefined then segments else JNum 4)
      | None \<Rightarrow> JNum 4)"

definition getShowCategoryAxis :: "DataView option \<Rightarrow> jsval" where
  "getShowCategoryAxis dataView =
     (case lookup_object dataView ''categoryAxis'' of
        Some categoryAxis \<Rightarrow> get_prop categoryAxis ''show''
      | None \<Rightarrow> JBool True)"


section \<open>The scene\<close>

text \<open>
  The elements the visual appends to its two groups, with the attributes that place
  them and those that tell the kinds apart (stroke width, font size, class). A
  \<open>translate(dx, dy)\<close> transform is the pair of its numbers. A polygon's points are kept
  as the list of coordinate pairs that the \<open>points\<close> attribute prints. A polygon stub is
  the element left behind when computing \<open>points\<close> raises: appended, with its class and
  stroke, and nothing more.
\<close>

datatype svg =
    SvgLine (stroke_width: string) (line_x1: jsnum) (line_y1: jsnum) (line_x2: jsnum) (line_y2: jsnum)
      (line_translate: "jsnum \<times> jsnum")
  | SvgText (font_size: string) (text_x: jsnum) (text_y: jsnum) (text_translate: "jsnum \<times> jsnum")
      (content: string)
  | SvgPolygon (polygon_class: string) (stroke: string) (points: "(jsnum \<times> jsnum) list")
      (polygon_fill: string)
  | SvgPolygonStub string string
  | SvgCircle (circle_r: jsnum) (circle_alt: real) (cx: jsnum) (cy: jsnum) (circle_fill: string)

text \<open>The state of a \<open>RadarChart\<close> object after \<open>init\<close>: its fields and what its groups hold.\<close>

record RadarChart =
  this_dataView :: "DataView option"
  this_data :: "RadarChartData option"
  this_colors :: IDataColorPalette
  this_settings :: "RadarChartSettings option"
  svg_size :: "(real \<times> real) option"
  axisGraphicsContext :: "svg list"
  dataGraphicsContext :: "svg list"
  dataGraphicsTransform :: "(jsnum \<times> jsnum) option"

definition init :: "IDataColorPalette \<Rightarrow> RadarChart" where
  "init dataColors =
     \<lparr>this_dataView = None, this_data = None, this_colors = dataColors, this_settings = None,
      svg_size = None, axisGraphicsContext = [], dataGraphicsContext = [],
      dataGraphicsTransform = None\<rparr>"


section \<open>drawAxis\<close>

text \<open>\<open>i * RadarChart.TwoPI / settings.catTotal\<close>\<close>

definition angle :: "RadarChartSettings \<Rightarrow> nat \<Rightarrow> jsnum" where
  "angle settings i = js_div (js_mul (Some (real i)) (Some TwoPI)) (Some (real (catTotal settings)))"

text \<open>\<open>settings.radius * ((j + 1) / settings.levels)\<close>\<close>

definition levelFactor :: "RadarChartSettings \<Rightarrow> nat \<Rightarrow> jsnum" where
  "levelFactor settings j =
     js_mul (Some (radius settings)) (js_div (Some (real j + 1)) (to_number (levels settings)))"

text \<open>The line appended at lines 315 to 325 for ring \<open>j\<close> and category \<open>i\<close>.\<close>

definition ring_line :: "RadarChartSettings \<Rightarrow> nat \<Rightarrow> nat \<Rightarrow> svg" where
  "ring_line settings j i =
     (let lf = levelFactor settings j in
      SvgLine ''0.3px''
        (js_mul lf (js_sub (Some 1) (js_mul (Some Factor) (js_sin (angle settings i)))))
        (js_mul lf (js_sub (Some 1) (js_mul (Some Factor) (js_cos (angle settings i)))))
        (js_mul lf (js_sub (Some 1) (js_mul (Some Factor) (js_sin (angle settings (i + 1))))))
        (js_mul lf (js_sub (Some 1) (js_mul (Some Factor) (js_cos (angle settings (i + 1))))))
        (js_sub (Some (width settings / 2)) lf, js_sub (Some (height settings / 2)) lf))"

text \<open>The two nested loops of lines 312 to 327.\<close>

definition levelRings :: "RadarChartSettings \<Rightarrow> svg list" where
  "levelRings settings =
     concat (map (\<lambda>j. map (\<lambda>i. ring_line settings j i) [0..<catTotal settings])
               (loop_indices (to_number (levels settings))))"

text \<open>The text appended at lines 332 to 340 for level \<open>j\<close>.\<close>

definition level_label :: "RadarChartSettings \<Rightarrow> nat \<Rightarrow> svg" where
  "level_label settings j =
     (let lf = levelFactor settings j in
      SvgText ''12px''
        (js_mul lf (js_sub (Some 1) (js_mul (Some Factor) (js_sin (Some 0)))))
        (js_mul lf (js_sub (Some 1) (js_mul (Some Factor) (js_cos (Some 0)))))
        (js_add (js_sub (Some (width settings / 2)) lf) (Some ToRight),
         js_sub (Some (height settings / 2)) lf)
        (levelsFormat settings
           (js_div (js_mul (Some (real j + 1)) (maxValue settings)) (to_number (levels settings)))))"

text \<open>The loop of lines 330 to 341, up to \<open>settings.levels - 1\<close>.\<close>

definition levelLabels :: "RadarChartSettings \<Rightarrow> svg list" where
  "levelLabels settings =
     map (level_label settings) (loop_indices (js_sub (to_number (levels settings)) (Some 1)))"

text \<open>The line appended at lines 347 to 355 for category \<open>i\<close>.\<close>

definition category_line :: "RadarChartSettings \<Rightarrow> nat \<Rightarrow> svg" where
  "category_line settings i =
     SvgLine ''1px''
       (Some (radius settings))
       (Some (radius settings))
       (js_mul (Some (radius settings)) (js_sub (Some 1) (js_mul (Some Factor) (js_sin (angle settings i)))))
       (js_mul (Some (radius settings)) (js_sub (Some 1) (js_mul (Some Factor) (js_cos (angle settings i)))))
       (Some (width settings / 2 - radius settings), Some (height settings / 2 - radius settings))"

text \<open>
  The label entered at lines 363 to 373 for the category \<open>d\<close> at position \<open>i\<close> of
  \<open>settings.catAxis\<close>. No element of class \<open>axis\<close> exists, so the join enters one label
  for each category.
\<close>

definition category_label :: "RadarChartSettings \<Rightarrow> nat \<Rightarrow> string \<Rightarrow> svg" where
  "category_label settings i d =
     SvgText ''14px''
       (js_sub (js_mul (Some (radius settings))
                  (js_sub (Some 1) (js_mul (Some FactorLegend) (js_sin (angle settings i)))))
               (js_mul (Some 70) (js_sin (angle settings i))))
       (js_sub (js_mul (Some (radius settings))
                  (js_sub (Some 1) (js_mul (Some FactorLegend) (js_cos (angle settings i)))))
               (js_mul (Some 70) (js_cos (angle settings i))))
       (Some (width settings / 2 - radius settings), Some (height settings / 2 - radius settings - 15))
       d"

definition categoryAxisElements :: "RadarChartSettings \<Rightarrow> svg list" where
  "categoryAxisElements settings =
     map (category_line settings) [0..<catTotal settings]
     @ map (\<lambda>i. category_label settings i (catAxis settings ! i)) [0..<length (catAxis settings)]"

text \<open>
  \<open>drawAxis\<close>. It reads a field of \<open>this.settings\<close> only inside the two branches, so with no
  settings it raises exactly when one of them is entered.
\<close>

definition drawAxis :: "RadarChart \<Rightarrow> error option \<times> RadarChart" where
  "drawAxis this =
     (let showLevel = truthy (getShowLevelAxis (this_dataView this));
          showCategory = truthy (getShowCategoryAxis (this_dataView this))
      in if \<not> showLevel \<and> \<not> showCategory then (None, this)
         else (case this_settings this of
                 None \<Rightarrow> (Some TypeError, this)
               | Some settings \<Rightarrow>
                   (None, this\<lparr>axisGraphicsContext := axisGraphicsContext this
                       @ (if showLevel then levelRings settings @ levelLabels settings else [])
                       @ (if showCategory then categoryAxisElements settings else [])\<rparr>)))"


section \<open>drawData\<close>

text \<open>
  The two coordinates of lines 388 and 389 (and of lines 439 and 442) for a value \<open>v\<close> at
  index \<open>i\<close>.
\<close>

definition coordX :: "RadarChartSettings \<Rightarrow> real \<Rightarrow> nat \<Rightarrow> jsnum" where
  "coordX settings v i =
     js_mul (Some (radius settings))
       (js_sub (Some 1)
          (js_mul (js_mul (js_div (Some (max v 0)) (maxValue settings)) (Some Factor))
             (js_sin (angle settings i))))"

definition coordY :: "RadarChartSettings \<Rightarrow> real \<Rightarrow> nat \<Rightarrow> jsnum" where
  "coordY settings v i =
     js_mul (Some (radius settings))
       (js_sub (Some 1)
          (js_mul (js_mul (js_div (Some (max v 0)) (maxValue settings)) (Some Factor))
             (js_cos (angle settings i))))"

text \<open>
  The array \<open>dataValues\<close> after the join of lines 385 to 391: the key function runs once
  for each point \<open>j\<close> of the series with its index \<open>i\<close> in the series, from \<open>i\<close> on.
\<close>

fun dataValues_from :: "RadarChartSettings \<Rightarrow> nat \<Rightarrow> RadarChartDataPoint list \<Rightarrow> (jsnum \<times> jsnum) list" where
  "dataValues_from settings i [] = []"
| "dataValues_from settings i (j # js) =
     (coordX settings (value j) i, coordY settings (value j) i) # dataValues_from settings (Suc i) js"

text \<open>
  The loop of lines 383 to 427, from series position \<open>j\<close> on; \<open>g\<close> is what the data group
  holds. \<open>dataValues.push(dataValues[0])\<close> closes the polygon; for a series with no
  point it pushes \<open>undefined\<close>, and the \<open>points\<close> function then raises on \<open>d[0][0]\<close>.
\<close>

fun draw_polygons :: "IDataColorPalette \<Rightarrow> RadarChartSettings \<Rightarrow> nat \<Rightarrow> RadarChartSeries list
    \<Rightarrow> svg list \<Rightarrow> error option \<times> svg list" where
  "draw_polygons colors settings j [] g = (None, g)"
| "draw_polygons colors settings j (serie # rest) g =
     (case dataValues_from settings 0 (data serie) of
        [] \<Rightarrow> (Some TypeError, g @ [SvgPolygonStub (''radar-chart-serie'' @ string_of_nat j) (colors j)])
      | v0 # vs \<Rightarrow>
          draw_polygons colors settings (Suc j) rest
            (g @ [SvgPolygon (''radar-chart-serie'' @ string_of_nat j) (colors j)
                    ((v0 # vs) @ [v0]) (colors j)]))"

text \<open>
  The circles entered at lines 433 to 445: one for each point \<open>j\<close> of \<open>this.data.values\<close>,
  with its index \<open>i\<close> in that list, from \<open>i\<close> on.
\<close>

fun nodes_from :: "RadarChartSettings \<Rightarrow> nat \<Rightarrow> RadarChartDataPoint list \<Rightarrow> svg list" where
  "nodes_from settings i [] = []"
| "nodes_from settings i (j # js) =
     SvgCircle (nodeRadius settings) (max (value j) 0)
       (coordX settings (value j) i) (coordY settings (value j) i) (color j)
     # nodes_from settings (Suc i) js"

definition drawData :: "RadarChart \<Rightarrow> error option \<times> RadarChart" where
  "drawData this =
     (case this_settings this of
        None \<Rightarrow> (Some TypeError, this)
      | Some settings \<Rightarrow>
          (let this1 = this\<lparr>dataGraphicsTransform :=
                 Some (Some (width settings / 2 - radius settings),
                       Some (height settings / 2 - radius settings))\<rparr>
           in case this_data this1 of
                None \<Rightarrow> (Some TypeError, this1)
              | Some data' \<Rightarrow>
                  (case draw_polygons (this_colors this1) settings 0 (series data')
                          (dataGraphicsContext this1) of
                     (Some e, g) \<Rightarrow> (Some e, this1\<lparr>dataGraphicsContext := g\<rparr>)
                   | (None, g) \<Rightarrow>
                       (if truthy (getShowNodes (this_dataView this1))
                        then (None, this1\<lparr>dataGraphicsContext := g @ nodes_from settings 0 (values data')\<rparr>)
                        else (None, this1\<lparr>dataGraphicsContext := g\<rparr>)))))"


section \<open>update\<close>

text \<open>
  Modelled from the spec: \<open>d3.max\<close> is a function of the D3 library, whose code is not
  among the sources of the repository; the spec calls its result "the maximum value
  across all points". Of an empty array it gives \<open>undefined\<close>, which arithmetic reads as
  NaN.
\<close>

fun d3_max :: "real list \<Rightarrow> jsnum" where
  "d3_max [] = None"
| "d3_max (a # bs) = Some (fold max bs a)"

text \<open>
  The settings object of lines 280 to 291. \<open>d3.format\<close>, of the D3 library as well, is a
  parameter: from a format specifier to the function that prints a number.
\<close>

definition make_settings :: "(jsval \<Rightarrow> jsnum \<Rightarrow> string) \<Rightarrow> DataView option \<Rightarrow> IViewport
    \<Rightarrow> RadarChartData \<Rightarrow> RadarChartSettings" where
  "make_settings d3_format dataView viewport' data' =
     (let radius' = Factor * min (vp_width viewport' / 2) (vp_height viewport' / 2) * MarginFactor
      in \<lparr>width = vp_width viewport',
          height = vp_height viewport',
          catTotal = length (categories data'),
          catAxis = categories data',
          radius = radius',
          nodeRadius = js_div (js_mul (Some radius') (to_number (getSizeFactorNodes dataView))) (Some 100),
          levels = getSegmentsLevelAxis dataView,
          levelsFormat = d3_format (getFormatLevelAxis dataView),
          maxValue = d3_max (map value (values data'))\<rparr>)"

text \<open>
  \<open>update\<close>. The result is the exception raised, if any, and the state of the object
  when \<open>update\<close> returns or raises: an assignment made before a raise stays.
\<close>

definition update :: "(jsval \<Rightarrow> jsnum \<Rightarrow> string) \<Rightarrow> RadarChart \<Rightarrow> VisualUpdateOptions
    \<Rightarrow> error option \<times> RadarChart" where
  "update d3_format this options =
     (case dataViews options of
        None \<Rightarrow> (None, this)
      | Some [] \<Rightarrow> (None, this)
      | Some (None # _) \<Rightarrow> (None, this)
      | Some (Some dataView # _) \<Rightarrow>
          (let this1 = this\<lparr>this_dataView := Some dataView\<rparr> in
           case converter dataView (this_colors this1) of
             Inl e \<Rightarrow> (Some e, this1)
           | Inr data' \<Rightarrow>
               (let this2 = this1\<lparr>this_data := Some data'\<rparr>;
                    settings = make_settings d3_format (this_dataView this2) (viewport options) data';
                    this3 = this2\<lparr>this_settings := Some settings,
                                  svg_size := Some (vp_width (viewport options), vp_height (viewport options)),
                                  axisGraphicsContext := [],
                                  dataGraphicsContext := []\<rparr>
                in case drawAxis this3 of
                     (Some e, this4) \<Rightarrow> (Some e, this4)
                   | (None, this4) \<Rightarrow> drawData this4)))"


section \<open>enumerateObjectInstances\<close>

definition enumerateObjectInstances :: "RadarChart \<Rightarrow> string \<Rightarrow> VisualObjectInstance list" where
  "enumerateObjectInstances this name =
     (if name = ''nodes'' then
        [\<lparr>objectName = ''nodes'', displayName = ''Nodes'', selector = None,
          properties = [(''show'', getShowNodes (this_dataView this)),
                        (''sizeFactor'', getSizeFactorNodes (this_dataView this))]\<rparr>]
      else if name = ''categoryAxis'' then
        [\<lparr>objectName = ''categoryAxis'', displayName = ''Category axis'', selector = None,
          properties = [(''show'', getShowCategoryAxis (this_dataView this))]\<rparr>]
      else if name = ''levelAxis'' then
        [\<lparr>objectName = ''levelAxis'', displayName = ''Level axis'', selector = None,
          properties = [(''show'', getShowLevelAxis (this_dataView this)),
                        (''segments'', getSegmentsLevelAxis (this_dataView this))]\<rparr>]
      else [])"


section \<open>Predicates used by the statements\<close>

text \<open>
  The data view is absent, or has no metadata objects, or has no object of this name.
\<close>

definition no_object :: "DataView option \<Rightarrow> string \<Rightarrow> bool" where
  "no_object dataView name =
     (case dataView of
        None \<Rightarrow> True
      | Some dv \<Rightarrow> (case objects (metadata dv) of None \<Rightarrow> True | Some objs \<Rightarrow> objs name = None))"

text \<open>\<open>options.dataViews\<close> is missing or has no first element.\<close>

definition no_first_dataView :: "VisualUpdateOptions \<Rightarrow> bool" where
  "no_first_dataView options =
     (case dataViews options of None \<Rightarrow> True | Some [] \<Rightarrow> True | Some (None # _) \<Rightarrow> True
      | Some (Some _ # _) \<Rightarrow> False)"

text \<open>Sample inputs for the instances below.\<close>

definition sample_palette :: IDataColorPalette where
  "sample_palette i = ''color'' @ string_of_nat i"

definition sample_format :: "jsval \<Rightarrow> jsnum \<Rightarrow> string" where
  "sample_format spec n = (case n of None \<Rightarrow> ''NaN'' | Some x \<Rightarrow> ''number'')"

definition sample_viewport :: IViewport where
  "sample_viewport = \<lparr>vp_width = 400, vp_height = 200\<rparr>"

definition bare_dataView :: DataView where
  "bare_dataView = \<lparr>metadata = \<lparr>objects = None\<rparr>, categorical = None\<rparr>"


text \<open>
  The parts of a data view that \<open>converter\<close> reads: the value columns (none when
  \<open>categorical.values\<close> is missing), the legend title of line 239, the values of the
  first category column, and whether there is a first category column at all.
\<close>

definition value_columns :: "DataView \<Rightarrow> DataViewValueColumn list" where
  "value_columns dataView =
     (case categorical dataView of
        None \<Rightarrow> []
      | Some c \<Rightarrow> (case dv_values c of None \<Rightarrow> [] | Some vs \<Rightarrow> columns vs))"

definition legend_title :: "DataView \<Rightarrow> string" where
  "legend_title dataView =
     (case categorical dataView of
        None \<Rightarrow> []
      | Some c \<Rightarrow> (case dv_values c of
                    None \<Rightarrow> []
                  | Some vs \<Rightarrow> (case values_source vs of None \<Rightarrow> [] | Some src \<Rightarrow> col_displayName src)))"

definition category_values :: "DataView \<Rightarrow> string list" where
  "category_values dataView =
     (case categorical dataView of
        None \<Rightarrow> []
      | Some c \<Rightarrow> (case dv_categories c of None \<Rightarrow> [] | Some [] \<Rightarrow> [] | Some (category # _) \<Rightarrow> cat_values category))"

definition has_category :: "DataView \<Rightarrow> bool" where
  "has_category dataView =
     (case categorical dataView of
        None \<Rightarrow> False
      | Some c \<Rightarrow> (case dv_categories c of None \<Rightarrow> False | Some cats \<Rightarrow> cats \<noteq> []))"

text \<open>
  The data points that \<open>converter\<close> creates for the value column at \<open>s\<close>: one for each
  value index \<open>v\<close> of the column.
\<close>

definition created_points :: "IDataColorPalette \<Rightarrow> DataViewValueColumn list \<Rightarrow> nat \<Rightarrow> RadarChartDataPoint list" where
  "created_points colors cols s =
     map (\<lambda>v. \<lparr>value = col_values (cols ! s) ! v, categoryIndex = v, seriesIndex = s, color = colors s\<rparr>)
       [0..<length (col_values (cols ! s))]"


text \<open>\<open>grouped()\<close> yields one group for each value column.\<close>

definition one_group_per_column :: "DataView \<Rightarrow> bool" where
  "one_group_per_column dataView =
     (case categorical dataView of
        None \<Rightarrow> True
      | Some c \<Rightarrow> (case dv_values c of None \<Rightarrow> True | Some vs \<Rightarrow> length (grouped vs) = length (columns vs)))"

text \<open>
  A data view of two categories and two value columns, and what \<open>converter\<close> makes of
  it with the sample palette.
\<close>

definition sample_dataView :: DataView where
  "sample_dataView =
     \<lparr>metadata = \<lparr>objects = None\<rparr>,
      categorical = Some
        \<lparr>dv_categories = Some [\<lparr>cat_values = [''A'', ''B'']\<rparr>],
         dv_values = Some
           \<lparr>columns = [\<lparr>col_values = [1, - 2], col_identity = Some ''id0''\<rparr>,
                       \<lparr>col_values = [4, 0], col_identity = Some ''id1''\<rparr>],
            values_source = Some \<lparr>col_displayName = ''Year''\<rparr>,
            grouped = [\<lparr>group_name = ''g0''\<rparr>, \<lparr>group_name = ''g1''\<rparr>]\<rparr>\<rparr>\<rparr>"

definition sample_data :: RadarChartData where
  "sample_data =
     \<lparr>series =
        [\<lparr>serie_displayName = ''Year'', key = ''Serie0'', index = 0,
          data = [\<lparr>value = 1, categoryIndex = 0, seriesIndex = 0, color = ''color0''\<rparr>,
                  \<lparr>value = - 2, categoryIndex = 1, seriesIndex = 0, color = ''color0''\<rparr>],
          identity = Some ''id0'', serie_color = ''color0''\<rparr>,
         \<lparr>serie_displayName = ''Year'', key = ''Serie1'', index = 1,
          data = [\<lparr>value = 4, categoryIndex = 0, seriesIndex = 1, color = ''color1''\<rparr>,
                  \<lparr>value = 0, categoryIndex = 1, seriesIndex = 1, color = ''color1''\<rparr>],
          identity = Some ''id1'', serie_color = ''color1''\<rparr>],
      categories = [''A'', ''B''],
      values = [\<lparr>value = 1, categoryIndex = 0, seriesIndex = 0, color = ''color0''\<rparr>,
                \<lparr>value = - 2, categoryIndex = 1, seriesIndex = 0, color = ''color0''\<rparr>,
                \<lparr>value = 4, categoryIndex = 0, seriesIndex = 1, color = ''color1''\<rparr>,
                \<lparr>value = 0, categoryIndex = 1, seriesIndex = 1, color = ''color1''\<rparr>]\<rparr>"

text \<open>A data view whose first value column is empty.\<close>

definition gap_dataView :: DataView where
  "gap_dataView =
     \<lparr>metadata = \<lparr>objects = None\<rparr>,
      categorical = Some
        \<lparr>dv_categories = Some [\<lparr>cat_values = [''A'']\<rparr>],
         dv_values = Some
           \<lparr>columns = [\<lparr>col_values = [], col_identity = Some ''id0''\<rparr>,
                       \<lparr>col_values = [7], col_identity = Some ''id1''\<rparr>],
            values_source = None,
            grouped = [\<lparr>group_name = ''g0''\<rparr>, \<lparr>group_name = ''g1''\<rparr>]\<rparr>\<rparr>\<rparr>"

text \<open>What \<open>converter\<close> makes of it.\<close>

definition gap_data :: RadarChartData where
  "gap_data =
     \<lparr>series = [\<lparr>serie_displayName = [], key = ''Serie1'', index = 1,
                  data = [\<lparr>value = 7, categoryIndex = 0, seriesIndex = 1, color = ''color1''\<rparr>],
                  identity = Some ''id1'', serie_color = ''color1''\<rparr>],
      categories = [''A''],
      values = [\<lparr>value = 7, categoryIndex = 0, seriesIndex = 1, color = ''color1''\<rparr>]\<rparr>"

text \<open>A data view with one category and two value columns.\<close>

definition wide_dataView :: DataView where
  "wide_dataView =
     \<lparr>metadata = \<lparr>objects = None\<rparr>,
      categorical = Some
        \<lparr>dv_categories = Some [\<lparr>cat_values = [''A'']\<rparr>],
         dv_values = Some
           \<lparr>columns = [\<lparr>col_values = [5], col_identity = Some ''id0''\<rparr>,
                       \<lparr>col_values = [7], col_identity = Some ''id1''\<rparr>],
            values_source = None,
            grouped = [\<lparr>group_name = ''g0''\<rparr>, \<lparr>group_name = ''g1''\<rparr>]\<rparr>\<rparr>\<rparr>"


text \<open>What \<open>drawAxis\<close> appends to the axis group.\<close>

definition axis_scene :: "DataView option \<Rightarrow> RadarChartSettings \<Rightarrow> svg list" where
  "axis_scene dataView settings =
     (if truthy (getShowLevelAxis dataView) then levelRings settings @ levelLabels settings else [])
     @ (if truthy (getShowCategoryAxis dataView) then categoryAxisElements settings else [])"

text \<open>
  What \<open>drawData\<close> appends to the data group when no series is empty: a closed polygon
  for each series, then a circle for each point if the nodes are shown.
\<close>

definition polygons :: "IDataColorPalette \<Rightarrow> RadarChartSettings \<Rightarrow> RadarChartSeries list \<Rightarrow> svg list" where
  "polygons colors settings sers =
     map (\<lambda>(j, serie).
            SvgPolygon (''radar-chart-serie'' @ string_of_nat j) (colors j)
              (dataValues_from settings 0 (data serie) @ take 1 (dataValues_from settings 0 (data serie)))
              (colors j))
       (enumerate 0 sers)"

definition data_scene :: "IDataColorPalette \<Rightarrow> DataView option \<Rightarrow> RadarChartSettings \<Rightarrow> RadarChartData \<Rightarrow> svg list" where
  "data_scene colors dataView settings data' =
     polygons colors settings (series data')
     @ (if truthy (getShowNodes dataView) then nodes_from settings 0 (values data') else [])"

text \<open>
  The state that a call of \<open>update\<close> builds from the first data view, the viewport and
  the converted data; of the state before the call it keeps the palette only.
\<close>

definition rendered :: "(jsval \<Rightarrow> jsnum \<Rightarrow> string) \<Rightarrow> RadarChart \<Rightarrow> DataView \<Rightarrow> IViewport \<Rightarrow> RadarChartData \<Rightarrow> RadarChart" where
  "rendered d3_format this dataView viewport' data' =
     (let settings = make_settings d3_format (Some dataView) viewport' data'
      in \<lparr>this_dataView = Some dataView,
          this_data = Some data',
          this_colors = this_colors this,
          this_settings = Some settings,
          svg_size = Some (vp_width viewport', vp_height viewport'),
          axisGraphicsContext = axis_scene (Some dataView) settings,
          dataGraphicsContext = data_scene (this_colors this) (Some dataView) settings data',
          dataGraphicsTransform = Some (Some (width settings / 2 - radius settings),
                                        Some (height settings / 2 - radius settings))\<rparr>)"


definition sample_options :: VisualUpdateOptions where
  "sample_options = \<lparr>dataViews = Some [Some sample_dataView], viewport = sample_viewport\<rparr>"

text \<open>The sample data view with objects set in the property pane.\<close>

definition styled_dataView :: DataView where
  "styled_dataView =
     sample_dataView\<lparr>metadata := \<lparr>objects = Some
        [''nodes'' \<mapsto> [''show'' \<mapsto> JBool False, ''sizeFactor'' \<mapsto> JNum 10],
         ''levelAxis'' \<mapsto> [''show'' \<mapsto> JBool True, ''segments'' \<mapsto> JNum (5 / 2)]]\<rparr>\<rparr>"

definition styled_options :: VisualUpdateOptions where
  "styled_options = \<lparr>dataViews = Some [Some styled_dataView], viewport = sample_viewport\<rparr>"

definition bare_options :: VisualUpdateOptions where
  "bare_options = \<lparr>dataViews = Some [Some bare_dataView], viewport = sample_viewport\<rparr>"

text \<open>A state left by an earlier render.\<close>

definition stale_state :: RadarChart where
  "stale_state = (init sample_palette)\<lparr>this_data := Some gap_data\<rparr>"


text \<open>
  The kinds of element of the level axis: a ring segment is the line of stroke width
  0.3px, a level label the text of font size 12px.
\<close>

definition is_ring_line :: "svg \<Rightarrow> bool" where
  "is_ring_line e = (case e of SvgLine w _ _ _ _ _ \<Rightarrow> w = ''0.3px'' | _ \<Rightarrow> False)"

definition is_level_label :: "svg \<Rightarrow> bool" where
  "is_level_label e = (case e of SvgText fs _ _ _ _ \<Rightarrow> fs = ''12px'' | _ \<Rightarrow> False)"

text \<open>
  The point \<open>(x, y)\<close>, moved by the translation \<open>t\<close>, lies at distance \<open>rho\<close> from
  \<open>centre\<close>.
\<close>

definition on_circle :: "real \<times> real \<Rightarrow> real \<Rightarrow> jsnum \<Rightarrow> jsnum \<Rightarrow> jsnum \<times> jsnum \<Rightarrow> bool" where
  "on_circle centre rho x y t =
     (case x of None \<Rightarrow> False | Some a \<Rightarrow>
      (case y of None \<Rightarrow> False | Some b \<Rightarrow>
       (case fst t of None \<Rightarrow> False | Some dx \<Rightarrow>
        (case snd t of None \<Rightarrow> False | Some dy \<Rightarrow>
           (a + dx - fst centre)\<^sup>2 + (b + dy - snd centre)\<^sup>2 = rho\<^sup>2))))"


text \<open>The settings that \<open>update\<close> computes for the two sample data views.\<close>

definition sample_settings :: RadarChartSettings where
  "sample_settings = make_settings sample_format (Some sample_dataView) sample_viewport sample_data"

definition styled_settings :: RadarChartSettings where
  "styled_settings = make_settings sample_format (Some styled_dataView) sample_viewport sample_data"

text \<open>A state with data and settings and nothing drawn.\<close>

definition laid_out_state :: RadarChart where
  "laid_out_state =
     (init sample_palette)\<lparr>this_dataView := Some sample_dataView, this_data := Some sample_data,
        this_settings := Some sample_settings\<rparr>"


text \<open>
  The coordinates \<open>radius * (1 - (max(v, 0) / m) * sin(i * 2\<pi> / n))\<close> and the same with
  the cosine, over the reals.
\<close>

definition radial_x :: "real \<Rightarrow> real \<Rightarrow> real \<Rightarrow> nat \<Rightarrow> nat \<Rightarrow> real" where
  "radial_x rad v m i n = rad * (1 - (max v 0 / m) * sin (real i * (2 * pi) / real n))"

definition radial_y :: "real \<Rightarrow> real \<Rightarrow> real \<Rightarrow> nat \<Rightarrow> nat \<Rightarrow> real" where
  "radial_y rad v m i n = rad * (1 - (max v 0 / m) * cos (real i * (2 * pi) / real n))"


section \<open>The property getters: defaults\<close>

lemma lookup_object_no_object: "no_object dataView name \<Longrightarrow> lookup_object dataView name = None"
  by (simp add: no_object_def lookup_object_def split: option.splits)

text \<open>
  C10. When the data view is absent, has no metadata objects, or lacks the relevant
  object, the getters return fixed defaults: \<open>getShowNodes\<close>, \<open>getShowLevelAxis\<close> and
  \<open>getShowCategoryAxis\<close> return true, \<open>getSizeFactorNodes\<close> and \<open>getSegmentsLevelAxis\<close>
  return 4, and \<open>getFormatLevelAxis\<close> returns the string \<open>%\<close>.
\<close>

theorem getters_defaults:
  "(no_object dataView ''nodes'' \<longrightarrow>
      getShowNodes dataView = JBool True \<and> getSizeFactorNodes dataView = JNum 4)
   \<and> (no_object dataView ''levelAxis'' \<longrightarrow>
      getShowLevelAxis dataView = JBool True \<and> getSegmentsLevelAxis dataView = JNum 4
      \<and> getFormatLevelAxis dataView = JStr ''%'')
   \<and> (no_object dataView ''categoryAxis'' \<longrightarrow> getShowCategoryAxis dataView = JBool True)"
  by (simp add: lookup_object_no_object getShowNodes_def getSizeFactorNodes_def
      getShowLevelAxis_def getSegmentsLevelAxis_def getFormatLevelAxis_def getShowCategoryAxis_def)

theorem getters_defaults_witness:
  "no_object (Some bare_dataView) ''nodes''
   \<and> no_object (Some bare_dataView) ''levelAxis''
   \<and> no_object (Some bare_dataView) ''categoryAxis''
   \<and> getShowNodes (Some bare_dataView) = JBool True
   \<and> getSizeFactorNodes (Some bare_dataView) = JNum 4
   \<and> getShowLevelAxis (Some bare_dataView) = JBool True
   \<and> getSegmentsLevelAxis (Some bare_dataView) = JNum 4
   \<and> getFormatLevelAxis (Some bare_dataView) = JStr ''%''
   \<and> getShowCategoryAxis (Some bare_dataView) = JBool True"
proof -
  have h: "no_object (Some bare_dataView) name" for name
    by (simp add: no_object_def bare_dataView_def)
  show ?thesis
    using getters_defaults [of "Some bare_dataView"] h by simp
qed


section \<open>update without a data view\<close>

text \<open>
  C9. If \<open>update\<close> is called with \<open>options.dataViews\<close> missing or with no first element, it
  returns at once and the whole state of the visual is unchanged: the stored data
  view, data and settings and the drawn scene are as they were before the call.
\<close>

theorem update_no_dataView_unchanged:
  "no_first_dataView options \<Longrightarrow> update d3_format this options = (None, this)"
  by (simp add: no_first_dataView_def update_def split: option.splits list.splits)

theorem update_no_dataView_unchanged_witness:
  "no_first_dataView \<lparr>dataViews = Some [], viewport = sample_viewport\<rparr>
   \<and> no_first_dataView \<lparr>dataViews = None, viewport = sample_viewport\<rparr>
   \<and> update sample_format (init sample_palette) \<lparr>dataViews = Some [], viewport = sample_viewport\<rparr>
       = (None, init sample_palette)
   \<and> update sample_format (init sample_palette) \<lparr>dataViews = None, viewport = sample_viewport\<rparr>
       = (None, init sample_palette)"
proof -
  have h1: "no_first_dataView \<lparr>dataViews = Some [], viewport = sample_viewport\<rparr>"
    by (simp add: no_first_dataView_def)
  have h2: "no_first_dataView \<lparr>dataViews = None, viewport = sample_viewport\<rparr>"
    by (simp add: no_first_dataView_def)
  show ?thesis
    using h1 h2 update_no_dataView_unchanged [OF h1, of sample_format "init sample_palette"]
      update_no_dataView_unchanged [OF h2, of sample_format "init sample_palette"]
    by simp
qed


section \<open>converter in closed form\<close>

lemma dataPoints_from_Nil_iff: "dataPoints_from colors s i vs = [] \<longleftrightarrow> vs = []"
  by (cases vs) simp_all

lemma dataPoints_from_enumerate:
  "dataPoints_from colors s i vs =
     map (\<lambda>(v, x). \<lparr>value = x, categoryIndex = v, seriesIndex = s, color = colors s\<rparr>) (enumerate i vs)"
  by (induction vs arbitrary: i) simp_all

lemma enumerate_as_map: "enumerate 0 xs = map (\<lambda>k. (k, xs ! k)) [0..<length xs]"
  by (rule nth_equalityI) (simp_all add: nth_enumerate_eq)

lemma dataPoints_from_created:
  "s < length cols \<Longrightarrow> dataPoints_from colors s 0 (col_values (cols ! s)) = created_points colors cols s"
  by (simp add: dataPoints_from_enumerate enumerate_as_map created_points_def)

lemma series_loop_closed:
  "series_loop colors t k cols (S, V) =
     (S @ map (\<lambda>(i, c). serieInput colors t i c (dataPoints_from colors i 0 (col_values c)))
            (filter (\<lambda>(i, c). col_values c \<noteq> []) (enumerate k cols)),
      V @ concat (map (\<lambda>(i, c). dataPoints_from colors i 0 (col_values c)) (enumerate k cols)))"
  by (induction cols arbitrary: k S V) (simp_all add: dataPoints_from_Nil_iff Let_def)

lemma concat_filter_nonempty:
  "concat (map f (filter (\<lambda>x. f x \<noteq> []) xs)) = concat (map f xs)"
  by (induction xs) simp_all

text \<open>What converter returns, in closed form.\<close>

lemma converter_eq:
  "converter dataView colors =
     (if has_category dataView
      then Inr \<lparr>series = fst (series_loop colors (legend_title dataView) 0 (value_columns dataView) ([], [])),
                categories = category_values dataView,
                values = snd (series_loop colors (legend_title dataView) 0 (value_columns dataView) ([], []))\<rparr>
      else Inl TypeError)"
  by (simp add: converter_def has_category_def legend_title_def value_columns_def category_values_def
      Let_def split: option.splits list.splits prod.splits)

lemma converter_Inr:
  assumes "converter dataView colors = Inr d"
  shows "series d = map (\<lambda>k. serieInput colors (legend_title dataView) k (value_columns dataView ! k)
                              (created_points colors (value_columns dataView) k))
                    (filter (\<lambda>k. col_values (value_columns dataView ! k) \<noteq> []) [0..<length (value_columns dataView)])"
    and "values d = concat (map (created_points colors (value_columns dataView)) [0..<length (value_columns dataView)])"
    and "categories d = category_values dataView"
    and "has_category dataView"
proof -
  let ?cols = "value_columns dataView" and ?t = "legend_title dataView"
  have m1: "map (\<lambda>(i, c). f i c) (filter (\<lambda>(i, c). P c) (enumerate 0 ?cols))
        = map (\<lambda>k. f k (?cols ! k)) (filter (\<lambda>k. P (?cols ! k)) [0..<length ?cols])" for f :: "nat \<Rightarrow> DataViewValueColumn \<Rightarrow> 'a" and P
    by (simp add: enumerate_as_map filter_map o_def)
  have m2: "map (\<lambda>(i, c). dataPoints_from colors i 0 (col_values c)) (enumerate 0 ?cols)
        = map (created_points colors ?cols) [0..<length ?cols]"
    by (simp add: enumerate_as_map dataPoints_from_created)
  from assms show hc: "has_category dataView"
    by (simp add: converter_eq split: if_splits)
  have d: "d = \<lparr>series = fst (series_loop colors ?t 0 ?cols ([], [])), categories = category_values dataView,
             values = snd (series_loop colors ?t 0 ?cols ([], []))\<rparr>"
    using assms hc by (simp add: converter_eq)
  have "series d = map (\<lambda>k. serieInput colors ?t k (?cols ! k) (dataPoints_from colors k 0 (col_values (?cols ! k))))
                    (filter (\<lambda>k. col_values (?cols ! k) \<noteq> []) [0..<length ?cols])"
    by (simp add: d series_loop_closed m1)
  also have "\<dots> = map (\<lambda>k. serieInput colors ?t k (?cols ! k) (created_points colors ?cols k))
                    (filter (\<lambda>k. col_values (?cols ! k) \<noteq> []) [0..<length ?cols])"
    by (rule map_cong) (simp_all add: dataPoints_from_created)
  finally show "series d = map (\<lambda>k. serieInput colors ?t k (?cols ! k) (created_points colors ?cols k))
                    (filter (\<lambda>k. col_values (?cols ! k) \<noteq> []) [0..<length ?cols])" .
  show "values d = concat (map (created_points colors ?cols) [0..<length ?cols])"
    by (simp add: d series_loop_closed m2)
  show "categories d = category_values dataView"
    by (simp add: d)
qed

lemma created_points_Nil_iff: "created_points colors cols k = [] \<longleftrightarrow> col_values (cols ! k) = []"
  by (simp add: created_points_def)

lemma converter_values_concat_data:
  assumes "converter dataView colors = Inr d"
  shows "values d = concat (map data (series d))"
proof -
  let ?cols = "value_columns dataView"
  note s = converter_Inr(1) [OF assms] and v = converter_Inr(2) [OF assms]
  have "concat (map data (series d))
      = concat (map (created_points colors ?cols) (filter (\<lambda>k. created_points colors ?cols k \<noteq> []) [0..<length ?cols]))"
    by (simp add: s o_def serieInput_def created_points_Nil_iff)
  also have "\<dots> = concat (map (created_points colors ?cols) [0..<length ?cols])"
    by (rule concat_filter_nonempty)
  finally show ?thesis by (simp add: v)
qed

lemma created_points_seriesIndex: "p \<in> set (created_points colors cols k) \<Longrightarrow> seriesIndex p = k"
  by (auto simp: created_points_def)

lemma distinct_created_points: "distinct (created_points colors cols k)"
  by (simp add: created_points_def distinct_map inj_on_def)

lemma distinct_concat_created:
  "distinct ks \<Longrightarrow> distinct (concat (map (created_points colors cols) ks))"
proof (induction ks)
  case Nil
  show ?case by simp
next
  case (Cons k ks)
  have "set (created_points colors cols k) \<inter> set (concat (map (created_points colors cols) ks)) = {}"
    using Cons.prems by (auto dest!: created_points_seriesIndex)
  with Cons show ?case by (simp add: distinct_created_points)
qed


section \<open>converter: the flattened values and the series\<close>

lemma converter_sample: "converter sample_dataView sample_palette = Inr sample_data"
  by (simp add: converter_def sample_dataView_def sample_data_def sample_palette_def serieInput_def digit_def string_of_nat.simps Let_def)

text \<open>
  C3. For every data view that \<open>converter\<close> accepts, the returned \<open>values\<close> list is the
  concatenation, in series order and then value-index order, of the per-series data
  lists: it holds exactly the data points created for the value columns, each once.
\<close>

theorem converter_values_flattened:
  assumes "converter dataView colors = Inr d"
  shows "values d = concat (map data (series d))
       \<and> values d = concat (map (created_points colors (value_columns dataView)) [0..<length (value_columns dataView)])
       \<and> (\<forall>s \<in> set (series d). data s = created_points colors (value_columns dataView) (index s))
       \<and> distinct (values d)"
proof -
  note s = converter_Inr(1) [OF assms] and v = converter_Inr(2) [OF assms]
  have a: "\<forall>s \<in> set (series d). data s = created_points colors (value_columns dataView) (index s)"
    unfolding s by (simp add: serieInput_def)
  have b: "distinct (values d)"
    unfolding v by (rule distinct_concat_created) simp
  show ?thesis
    by (intro conjI) (rule converter_values_concat_data [OF assms], rule v, rule a, rule b)
qed

theorem converter_values_flattened_witness:
  "converter sample_dataView sample_palette = Inr sample_data
   \<and> values sample_data = concat (map data (series sample_data))
   \<and> values sample_data = concat (map (created_points sample_palette (value_columns sample_dataView))
                                    [0..<length (value_columns sample_dataView)])
   \<and> distinct (values sample_data)"
  using converter_values_flattened [OF converter_sample] converter_sample by blast

lemma map_index_series:
  "map index (map (\<lambda>k. serieInput colors t k (cols ! k) (f k)) ks) = ks"
  by (simp add: serieInput_def o_def)

lemma converter_series_by_index:
  assumes "converter dataView colors = Inr d" and "s \<in> set (series d)"
  shows "index s < length (value_columns dataView)"
    and "key s = ''Serie'' @ string_of_nat (index s)"
    and "identity s = col_identity (value_columns dataView ! index s)"
    and "serie_color s = colors (index s)"
    and "data s = created_points colors (value_columns dataView) (index s)"
  using assms(2) unfolding converter_Inr(1) [OF assms(1)]
  by (auto simp: serieInput_def)

lemma created_points_members:
  "p \<in> set (created_points colors cols k) \<Longrightarrow> seriesIndex p = k \<and> color p = colors k"
  by (auto simp: created_points_def)

text \<open>
  C5. For every series object at position \<open>k\<close> of the list that \<open>converter\<close> returns, the
  index field is \<open>k\<close>, the key is \<open>Serie\<close> followed by \<open>k\<close>, the identity is the identity of
  the \<open>k\<close>-th value column, and every data point of its data list has series index \<open>k\<close>
  and the colour of the series, which is the palette's colour \<open>k\<close>. The data view is one
  of the categorical mapping: its value columns have one common length, a value for
  each category row.
\<close>

theorem converter_series_consistent:
  assumes "converter dataView colors = Inr d"
    and "\<forall>c \<in> set (value_columns dataView). length (col_values c) = n"
  shows "length (series d) \<le> length (value_columns dataView)
       \<and> (0 < n \<longrightarrow> length (series d) = length (value_columns dataView))
       \<and> (\<forall>k < length (series d).
              index (series d ! k) = k
            \<and> key (series d ! k) = ''Serie'' @ string_of_nat k
            \<and> identity (series d ! k) = col_identity (value_columns dataView ! k)
            \<and> serie_color (series d ! k) = colors k
            \<and> (\<forall>p \<in> set (data (series d ! k)).
                  seriesIndex p = k \<and> color p = serie_color (series d ! k) \<and> color p = colors k))"
proof -
  let ?cols = "value_columns dataView"
  have m: "map index (series d) = filter (\<lambda>k. col_values (?cols ! k) \<noteq> []) [0..<length ?cols]"
    unfolding converter_Inr(1) [OF assms(1)] by (rule map_index_series)
  have le: "length (series d) \<le> length ?cols"
  proof -
    have "length (map index (series d)) \<le> length [0..<length ?cols]"
      unfolding m by (rule length_filter_le)
    then show ?thesis by simp
  qed
  have full: "map index (series d) = [0..<length ?cols]" if "0 < n"
  proof -
    have "col_values (?cols ! k) \<noteq> []" if "k < length ?cols" for k
      using assms(2) that \<open>0 < n\<close> by (metis length_greater_0_conv nth_mem)
    then have "filter (\<lambda>k. col_values (?cols ! k) \<noteq> []) [0..<length ?cols] = [0..<length ?cols]"
      by (simp add: filter_id_conv)
    with m show ?thesis by simp
  qed
  have empty: "series d = []" if "n = 0"
  proof -
    have "col_values (?cols ! k) = []" if "k < length ?cols" for k
      using assms(2) that \<open>n = 0\<close> by (metis length_0_conv nth_mem)
    then have "filter (\<lambda>k. col_values (?cols ! k) \<noteq> []) [0..<length ?cols] = []"
      by (simp add: filter_empty_conv)
    with m show ?thesis by simp
  qed
  have len: "length (series d) = length ?cols" if "0 < n"
  proof -
    have "length (map index (series d)) = length [0..<length ?cols]"
      unfolding full [OF that] by (rule refl)
    then show ?thesis by simp
  qed
  have pos: "index (series d ! k) = k" if "k < length (series d)" for k
  proof -
    from that empty have "0 < n" by (cases n) auto
    have "index (series d ! k) = map index (series d) ! k"
      using that by simp
    also have "\<dots> = k"
      using that len [OF \<open>0 < n\<close>] by (simp add: full [OF \<open>0 < n\<close>])
    finally show ?thesis .
  qed
  have each: "index (series d ! k) = k
            \<and> key (series d ! k) = ''Serie'' @ string_of_nat k
            \<and> identity (series d ! k) = col_identity (?cols ! k)
            \<and> serie_color (series d ! k) = colors k
            \<and> (\<forall>p \<in> set (data (series d ! k)).
                  seriesIndex p = k \<and> color p = serie_color (series d ! k) \<and> color p = colors k)"
    if "k < length (series d)" for k
  proof -
    from that have mem: "series d ! k \<in> set (series d)" by simp
    note f = converter_series_by_index [OF assms(1) mem, unfolded pos [OF that]]
    have "seriesIndex p = k \<and> color p = serie_color (series d ! k) \<and> color p = colors k"
      if "p \<in> set (data (series d ! k))" for p
      using that created_points_members [of p colors ?cols k] unfolding f(5) f(4) by simp
    with pos [OF \<open>k < length (series d)\<close>] f(2,3,4) show ?thesis by blast
  qed
  from le len each show ?thesis by blast
qed

theorem converter_series_consistent_witness:
  "converter sample_dataView sample_palette = Inr sample_data
   \<and> map (\<lambda>c. length (col_values c)) (value_columns sample_dataView) = [2, 2]
   \<and> length (series sample_data) = length (value_columns sample_dataView)
   \<and> index (series sample_data ! 1) = 1
   \<and> key (series sample_data ! 1) = ''Serie1''
   \<and> identity (series sample_data ! 1) = col_identity (value_columns sample_dataView ! 1)
   \<and> serie_color (series sample_data ! 1) = sample_palette 1
   \<and> map seriesIndex (data (series sample_data ! 1)) = [1, 1]
   \<and> map color (data (series sample_data ! 1)) = [sample_palette 1, sample_palette 1]"
proof -
  have u: "\<forall>c \<in> set (value_columns sample_dataView). length (col_values c) = 2"
    by (simp add: value_columns_def sample_dataView_def)
  have m: "map (\<lambda>c. length (col_values c)) (value_columns sample_dataView) = [2, 2]"
    by (simp add: value_columns_def sample_dataView_def)
  note t = converter_series_consistent [OF converter_sample u]
  have l: "length (series sample_data) = length (value_columns sample_dataView)"
    using t by simp
  have k: "1 < length (series sample_data)"
    by (simp add: sample_data_def)
  note e = t [THEN conjunct2, THEN conjunct2, rule_format, OF k]
  have d: "data (series sample_data ! 1)
         = [\<lparr>value = 4, categoryIndex = 0, seriesIndex = 1, color = ''color1''\<rparr>,
            \<lparr>value = 0, categoryIndex = 1, seriesIndex = 1, color = ''color1''\<rparr>]"
    by (simp add: sample_data_def)
  have p: "sample_palette 1 = ''color1''"
    by (simp add: sample_palette_def string_of_nat.simps digit_def)
  from e have e1: "index (series sample_data ! 1) = 1"
    and e2: "key (series sample_data ! 1) = ''Serie'' @ string_of_nat 1"
    and e3: "identity (series sample_data ! 1) = col_identity (value_columns sample_dataView ! 1)"
    and e4: "serie_color (series sample_data ! 1) = sample_palette 1"
    by blast+
  have s1: "string_of_nat 1 = ''1''"
    by (simp add: string_of_nat.simps digit_def)
  show ?thesis
    using converter_sample m l e1 e2 e3 e4 s1 d p by simp
qed

text \<open>The data that the state left by an earlier render holds.\<close>

lemma converter_gap: "converter gap_dataView sample_palette = Inr gap_data"
  by (simp add: converter_def gap_dataView_def gap_data_def serieInput_def digit_def
      string_of_nat.simps sample_palette_def Let_def)


section \<open>converter: when it raises and what it reads\<close>

lemma series_reads_in_bounds:
  assumes "sIndex < seriesLen" "sIndex < groupedLen" "sIndex < catLen" "length (col_values serie) \<le> catLen"
  shows "list_all in_bounds (series_reads seriesLen groupedLen catLen sIndex serie)"
  using assms by (auto simp: series_reads_def in_bounds_def list_all_iff)

text \<open>
  C8, as amended. \<open>converter\<close> raises exactly when the data view has no \<open>categorical\<close> or
  no first category column; otherwise it returns a result. With one group for each
  value column, every indexed array read is in bounds when, in addition, neither the
  number of value columns nor the length of a value column exceeds the number of
  category values.
\<close>

theorem converter_total_reads:
  "(converter dataView colors = Inl TypeError \<longleftrightarrow> \<not> has_category dataView)
   \<and> (has_category dataView \<longrightarrow> (\<exists>d. converter dataView colors = Inr d))
   \<and> (has_category dataView \<and> one_group_per_column dataView
        \<and> length (value_columns dataView) \<le> length (category_values dataView)
        \<and> (\<forall>c \<in> set (value_columns dataView). length (col_values c) \<le> length (category_values dataView))
      \<longrightarrow> list_all in_bounds (converter_reads dataView))"
proof (intro conjI impI)
  show "converter dataView colors = Inl TypeError \<longleftrightarrow> \<not> has_category dataView"
    by (simp add: converter_eq)
  show "\<exists>d. converter dataView colors = Inr d" if "has_category dataView"
    using that by (simp add: converter_eq)
  show "list_all in_bounds (converter_reads dataView)"
    if h: "has_category dataView \<and> one_group_per_column dataView
        \<and> length (value_columns dataView) \<le> length (category_values dataView)
        \<and> (\<forall>c \<in> set (value_columns dataView). length (col_values c) \<le> length (category_values dataView))"
  proof -
    from h obtain c cat cats where c: "categorical dataView = Some c" "dv_categories c = Some (cat # cats)"
      by (auto simp: has_category_def neq_Nil_conv split: option.splits)
    show ?thesis
    proof (cases "dv_values c")
      case None
      with c show ?thesis by (simp add: converter_reads_def in_bounds_def)
    next
      case (Some vs)
      have cv: "category_values dataView = cat_values cat" "value_columns dataView = columns vs"
        using c Some by (simp_all add: category_values_def value_columns_def)
      have g: "length (grouped vs) = length (columns vs)"
        using h c Some by (simp add: one_group_per_column_def)
      have "list_all in_bounds (series_reads (length (columns vs)) (length (grouped vs))
               (length (cat_values cat)) k (columns vs ! k))" if "k < length (columns vs)" for k
        using that h g cv by (intro series_reads_in_bounds) auto
      then show ?thesis
        using c Some by (simp add: converter_reads_def in_bounds_def list_all_iff)
    qed
  qed
qed

theorem converter_total_reads_witness:
  "has_category sample_dataView \<and> one_group_per_column sample_dataView
   \<and> length (value_columns sample_dataView) \<le> length (category_values sample_dataView)
   \<and> converter sample_dataView sample_palette = Inr sample_data
   \<and> converter bare_dataView sample_palette = Inl TypeError
   \<and> list_all in_bounds (converter_reads sample_dataView)"
proof -
  have h: "has_category sample_dataView \<and> one_group_per_column sample_dataView
        \<and> length (value_columns sample_dataView) \<le> length (category_values sample_dataView)
        \<and> (\<forall>c \<in> set (value_columns sample_dataView). length (col_values c) \<le> length (category_values sample_dataView))"
    by (simp add: has_category_def one_group_per_column_def value_columns_def category_values_def
        sample_dataView_def)
  have n: "\<not> has_category bare_dataView"
    by (simp add: has_category_def bare_dataView_def)
  show ?thesis
    using converter_total_reads [of sample_dataView sample_palette]
      converter_total_reads [of bare_dataView sample_palette] h n converter_sample
    by blast
qed

text \<open>
  With one category and two value columns the precondition of the claim holds and
  \<open>converter\<close> returns, yet \<open>categoryValues[seriesIndex]\<close> reads index 1 of an array of
  length 1.
\<close>

theorem converter_reads_counterexample:
  "has_category wide_dataView \<and> one_group_per_column wide_dataView
   \<and> converter wide_dataView sample_palette \<noteq> Inl TypeError
   \<and> (1, 1) \<in> set (converter_reads wide_dataView)
   \<and> \<not> list_all in_bounds (converter_reads wide_dataView)"
  by (simp add: has_category_def one_group_per_column_def wide_dataView_def converter_def
      converter_reads_def series_reads_def in_bounds_def Let_def split: prod.splits)


section \<open>update on a data view\<close>

lemma dataValues_from_Nil_iff: "dataValues_from settings i ps = [] \<longleftrightarrow> ps = []"
  by (cases ps) simp_all

lemma draw_polygons_closed:
  "\<forall>serie \<in> set sers. data serie \<noteq> [] \<Longrightarrow>
   draw_polygons colors settings j sers g =
     (None, g @ map (\<lambda>(j, serie).
            SvgPolygon (''radar-chart-serie'' @ string_of_nat j) (colors j)
              (dataValues_from settings 0 (data serie) @ take 1 (dataValues_from settings 0 (data serie)))
              (colors j)) (enumerate j sers))"
proof (induction sers arbitrary: j g)
  case Nil
  show ?case by simp
next
  case (Cons serie rest)
  then obtain v0 vs where v: "dataValues_from settings 0 (data serie) = v0 # vs"
    by (cases "dataValues_from settings 0 (data serie)") (simp_all add: dataValues_from_Nil_iff)
  show ?case using Cons by (simp add: v)
qed

lemma drawAxis_settings:
  "this_settings this = Some settings \<Longrightarrow>
   drawAxis this = (None, this\<lparr>axisGraphicsContext := axisGraphicsContext this @ axis_scene (this_dataView this) settings\<rparr>)"
  by (simp add: drawAxis_def axis_scene_def Let_def)

lemma drawData_settings:
  assumes "this_settings this = Some settings" "this_data this = Some d"
    and "\<forall>serie \<in> set (series d). data serie \<noteq> []"
  shows "drawData this =
     (None, this\<lparr>dataGraphicsTransform := Some (Some (width settings / 2 - radius settings),
                                                 Some (height settings / 2 - radius settings)),
                 dataGraphicsContext := dataGraphicsContext this
                    @ data_scene (this_colors this) (this_dataView this) settings d\<rparr>)"
  using assms
  by (simp add: drawData_def Let_def draw_polygons_closed data_scene_def polygons_def)

lemma converter_series_nonempty:
  assumes "converter dataView colors = Inr d"
  shows "\<forall>serie \<in> set (series d). data serie \<noteq> []"
  unfolding converter_Inr(1) [OF assms] by (simp add: serieInput_def created_points_Nil_iff)

lemma update_success:
  assumes "dataViews options = Some (Some dataView # rest)"
    and "converter dataView (this_colors this) = Inr d"
  shows "update d3_format this options = (None, rendered d3_format this dataView (viewport options) d)"
  using assms converter_series_nonempty [OF assms(2)]
  by (simp add: update_def Let_def drawAxis_settings drawData_settings rendered_def)

lemma update_failure:
  assumes "dataViews options = Some (Some dataView # rest)"
    and "converter dataView (this_colors this) = Inl e"
  shows "update d3_format this options = (Some e, this\<lparr>this_dataView := Some dataView\<rparr>)"
  using assms by (simp add: update_def Let_def)


section \<open>enumerateObjectInstances echoes the stored data view\<close>

lemma update_stores_dataView:
  assumes "dataViews options = Some (Some dataView # rest)"
  shows "this_dataView (snd (update d3_format this options)) = Some dataView"
proof (cases "converter dataView (this_colors this)")
  case (Inl e)
  show ?thesis by (simp add: update_failure [OF assms Inl])
next
  case (Inr d)
  show ?thesis by (simp add: update_success [OF assms Inr] rendered_def Let_def)
qed

text \<open>
  C7. For the object names \<open>nodes\<close>, \<open>categoryAxis\<close> and \<open>levelAxis\<close>,
  \<open>enumerateObjectInstances\<close> returns exactly one instance, whose properties echo the
  values read from the last stored data view (\<open>show\<close> and \<open>sizeFactor\<close> for nodes, \<open>show\<close>
  for the category axis, \<open>show\<close> and \<open>segments\<close> for the level axis); for every other
  object name it returns the empty list. The stored data view is the first data view
  of the last \<open>update\<close> that had one.
\<close>

theorem enumerateObjectInstances_echo:
  "(name = ''nodes'' \<longrightarrow> enumerateObjectInstances this name =
      [\<lparr>objectName = ''nodes'', displayName = ''Nodes'', selector = None,
        properties = [(''show'', getShowNodes (this_dataView this)),
                      (''sizeFactor'', getSizeFactorNodes (this_dataView this))]\<rparr>])
   \<and> (name = ''categoryAxis'' \<longrightarrow> enumerateObjectInstances this name =
      [\<lparr>objectName = ''categoryAxis'', displayName = ''Category axis'', selector = None,
        properties = [(''show'', getShowCategoryAxis (this_dataView this))]\<rparr>])
   \<and> (name = ''levelAxis'' \<longrightarrow> enumerateObjectInstances this name =
      [\<lparr>objectName = ''levelAxis'', displayName = ''Level axis'', selector = None,
        properties = [(''show'', getShowLevelAxis (this_dataView this)),
                      (''segments'', getSegmentsLevelAxis (this_dataView this))]\<rparr>])
   \<and> (name \<noteq> ''nodes'' \<and> name \<noteq> ''categoryAxis'' \<and> name \<noteq> ''levelAxis'' \<longrightarrow>
        enumerateObjectInstances this name = [])
   \<and> (\<forall>obj. lookup_object (this_dataView this) ''nodes'' = Some obj \<longrightarrow>
          getShowNodes (this_dataView this) = get_prop obj ''show''
        \<and> (get_prop obj ''sizeFactor'' \<noteq> JUndefined \<longrightarrow>
             getSizeFactorNodes (this_dataView this) = get_prop obj ''sizeFactor''))
   \<and> (\<forall>obj. lookup_object (this_dataView this) ''categoryAxis'' = Some obj \<longrightarrow>
          getShowCategoryAxis (this_dataView this) = get_prop obj ''show'')
   \<and> (\<forall>obj. lookup_object (this_dataView this) ''levelAxis'' = Some obj \<longrightarrow>
          getShowLevelAxis (this_dataView this) = get_prop obj ''show''
        \<and> (get_prop obj ''segments'' \<noteq> JUndefined \<longrightarrow>
             getSegmentsLevelAxis (this_dataView this) = get_prop obj ''segments''))
   \<and> (\<forall>d3_format prev options dataView rest.
          dataViews options = Some (Some dataView # rest) \<and> this = snd (update d3_format prev options) \<longrightarrow>
          this_dataView this = Some dataView)"
proof -
  have "\<forall>d3_format prev options dataView rest.
          dataViews options = Some (Some dataView # rest) \<and> this = snd (update d3_format prev options) \<longrightarrow>
          this_dataView this = Some dataView"
    using update_stores_dataView by blast
  then show ?thesis
    by (simp add: enumerateObjectInstances_def getShowNodes_def getSizeFactorNodes_def
        getShowCategoryAxis_def getShowLevelAxis_def getSegmentsLevelAxis_def Let_def)
qed

theorem enumerateObjectInstances_echo_witness:
  "this_dataView (snd (update sample_format (init sample_palette) styled_options)) = Some styled_dataView
   \<and> enumerateObjectInstances (snd (update sample_format (init sample_palette) styled_options)) ''nodes'' =
      [\<lparr>objectName = ''nodes'', displayName = ''Nodes'', selector = None,
        properties = [(''show'', JBool False), (''sizeFactor'', JNum 10)]\<rparr>]
   \<and> enumerateObjectInstances (snd (update sample_format (init sample_palette) styled_options)) ''levelAxis'' =
      [\<lparr>objectName = ''levelAxis'', displayName = ''Level axis'', selector = None,
        properties = [(''show'', JBool True), (''segments'', JNum (5 / 2))]\<rparr>]
   \<and> enumerateObjectInstances (snd (update sample_format (init sample_palette) styled_options)) ''categoryAxis'' =
      [\<lparr>objectName = ''categoryAxis'', displayName = ''Category axis'', selector = None,
        properties = [(''show'', JBool True)]\<rparr>]
   \<and> enumerateObjectInstances (snd (update sample_format (init sample_palette) styled_options)) ''general'' = []"
proof -
  let ?st = "snd (update sample_format (init sample_palette) styled_options)"
  have dv: "this_dataView ?st = Some styled_dataView"
    using enumerateObjectInstances_echo [of "''nodes''" ?st]
    by (simp add: styled_options_def)
  have g: "getShowNodes (Some styled_dataView) = JBool False"
      "getSizeFactorNodes (Some styled_dataView) = JNum 10"
      "getShowLevelAxis (Some styled_dataView) = JBool True"
      "getSegmentsLevelAxis (Some styled_dataView) = JNum (5 / 2)"
      "getShowCategoryAxis (Some styled_dataView) = JBool True"
    by (simp_all add: getShowNodes_def getSizeFactorNodes_def getShowLevelAxis_def
        getSegmentsLevelAxis_def getShowCategoryAxis_def lookup_object_def get_prop_def
        styled_dataView_def sample_dataView_def)
  show ?thesis
    using enumerateObjectInstances_echo [of "''nodes''" ?st]
      enumerateObjectInstances_echo [of "''levelAxis''" ?st]
      enumerateObjectInstances_echo [of "''categoryAxis''" ?st]
      enumerateObjectInstances_echo [of "''general''" ?st]
    by (simp add: dv g)
qed

section \<open>update recomputes the data and the settings\<close>

lemma converter_bare: "converter bare_dataView colors = Inl TypeError"
  by (simp add: converter_def bare_dataView_def)


lemma update_success_fields:
  assumes "dataViews options = Some (Some dataView # rest)"
    and "converter dataView (this_colors this) = Inr d"
  shows "fst (update d3_format this options) = None
       \<and> this_dataView (snd (update d3_format this options)) = Some dataView
       \<and> this_data (snd (update d3_format this options)) = Some d
       \<and> this_settings (snd (update d3_format this options))
           = Some (make_settings d3_format (Some dataView) (viewport options) d)"
    by (simp add: update_success [OF assms] rendered_def Let_def)

lemma update_same_palette:
  assumes "dataViews options = Some (Some dataView # rest)"
    and "converter dataView (this_colors this) = Inr d"
    and that: "this_colors prev = this_colors this"
  shows "update d3_format prev options = update d3_format this options"
proof -
  have "converter dataView (this_colors prev) = Inr d"
    unfolding that by (rule assms(2))
  then have "update d3_format prev options = (None, rendered d3_format prev dataView (viewport options) d)"
    by (rule update_success [OF assms(1)])
  also have "rendered d3_format prev dataView (viewport options) d
           = rendered d3_format this dataView (viewport options) d"
    unfolding rendered_def that by (rule refl)
  also have "(None, rendered d3_format this dataView (viewport options) d) = update d3_format this options"
    by (rule update_success [OF assms(1,2), symmetric])
  finally show ?thesis .
qed

lemma enumerateObjectInstances_dataView_only:
  "this_dataView other = this_dataView this \<Longrightarrow>
   enumerateObjectInstances other name = enumerateObjectInstances this name"
  by (simp add: enumerateObjectInstances_def)

text \<open>
  C4, as amended. Every call of \<open>update\<close> with a first data view that \<open>converter\<close> accepts
  recomputes \<open>this.data\<close>, as \<open>converter\<close> of that data view and the palette installed by
  \<open>init\<close>, and \<open>this.settings\<close>, from that data view, the viewport and the new data.
  Nothing else of the state before the call has an influence: from two states with
  the same palette \<open>update\<close> gives the same result. Of what the call leaves behind,
  \<open>enumerateObjectInstances\<close> reads the stored data view and nothing else.
\<close>

theorem update_recomputes:
  assumes "dataViews options = Some (Some dataView # rest)"
    and "converter dataView (this_colors this) = Inr d"
  shows "fst (update d3_format this options) = None
       \<and> this_dataView (snd (update d3_format this options)) = Some dataView
       \<and> this_data (snd (update d3_format this options)) = Some d
       \<and> this_settings (snd (update d3_format this options))
           = Some (make_settings d3_format (Some dataView) (viewport options) d)
       \<and> (\<forall>prev. this_colors prev = this_colors this \<longrightarrow>
             update d3_format prev options = update d3_format this options)
       \<and> (\<forall>other name. this_dataView other = Some dataView \<longrightarrow>
             enumerateObjectInstances other name
               = enumerateObjectInstances (snd (update d3_format this options)) name)"
proof -
  have p: "\<forall>prev. this_colors prev = this_colors this \<longrightarrow>
             update d3_format prev options = update d3_format this options"
    by (intro allI impI) (rule update_same_palette [OF assms])
  have "this_dataView (snd (update d3_format this options)) = Some dataView"
    by (rule update_stores_dataView [OF assms(1)])
  then have e: "\<forall>other name. this_dataView other = Some dataView \<longrightarrow>
             enumerateObjectInstances other name
               = enumerateObjectInstances (snd (update d3_format this options)) name"
    by (intro allI impI) (rule enumerateObjectInstances_dataView_only, simp)
  from update_success_fields [OF assms, of d3_format] p e show ?thesis
    by (elim conjE) (intro conjI, assumption+)
qed

theorem update_recomputes_witness:
  "dataViews sample_options = Some [Some sample_dataView]
   \<and> converter sample_dataView (this_colors stale_state) = Inr sample_data
   \<and> this_colors (init sample_palette) = this_colors stale_state
   \<and> fst (update sample_format stale_state sample_options) = None
   \<and> this_data (snd (update sample_format stale_state sample_options)) = Some sample_data
   \<and> this_settings (snd (update sample_format stale_state sample_options))
       = Some (make_settings sample_format (Some sample_dataView) sample_viewport sample_data)
   \<and> update sample_format (init sample_palette) sample_options
       = update sample_format stale_state sample_options"
proof -
  have h1: "dataViews sample_options = Some (Some sample_dataView # [])"
    by (simp add: sample_options_def)
  have c: "this_colors (init sample_palette) = this_colors stale_state"
    by (simp add: stale_state_def init_def)
  have h2: "converter sample_dataView (this_colors stale_state) = Inr sample_data"
    by (simp add: stale_state_def init_def converter_sample)
  have v: "viewport sample_options = sample_viewport"
    by (simp add: sample_options_def)
  note t = update_recomputes [OF h1 h2, of sample_format, unfolded v]
  from t have e: "this_colors (init sample_palette) = this_colors stale_state \<longrightarrow>
      update sample_format (init sample_palette) sample_options
         = update sample_format stale_state sample_options"
    by (elim conjE) (erule spec)
  from t h1 h2 c e [rule_format, OF c] show ?thesis
    by (elim conjE) (intro conjI, assumption+)
qed

text \<open>
  With a first data view that has no \<open>categorical\<close>, \<open>update\<close> raises after storing the
  data view: \<open>this.data\<close> is then what the state before the call held, and differs
  with it.
\<close>

theorem update_keeps_data_counterexample:
  "dataViews bare_options = Some [Some bare_dataView]
   \<and> fst (update sample_format stale_state bare_options) = Some TypeError
   \<and> this_data (snd (update sample_format stale_state bare_options)) = Some gap_data
   \<and> this_data (snd (update sample_format (init sample_palette) bare_options)) = None
   \<and> this_settings (snd (update sample_format stale_state bare_options)) = None"
proof -
  have h: "dataViews bare_options = Some (Some bare_dataView # [])"
    by (simp add: bare_options_def)
  show ?thesis
    using h by (simp add: update_failure [OF h converter_bare] stale_state_def init_def)
qed

section \<open>The level axis\<close>

lemma count_up_eq: "count_up j b = [j..<nat \<lceil>b\<rceil>]"
proof (induction j b rule: count_up.induct)
  case (1 j b)
  show ?case
  proof (cases "real j < b")
    case True
    then have "j < nat \<lceil>b\<rceil>" by linarith
    with True 1 show ?thesis
      by (subst count_up.simps) (simp add: upt_conv_Cons)
  next
    case False
    then have "nat \<lceil>b\<rceil> \<le> j" by linarith
    with False show ?thesis
      by (subst count_up.simps) simp
  qed
qed

lemma loop_indices_Some: "loop_indices (Some b) = [0..<nat \<lceil>b\<rceil>]"
  by (simp add: loop_indices_def count_up_eq)

lemma length_concat_const:
  "(\<And>x. x \<in> set xs \<Longrightarrow> length (f x) = k) \<Longrightarrow> length (concat (map f xs)) = length xs * k"
  by (induction xs) simp_all

lemma levelRings_JNum:
  "levels settings = JNum b \<Longrightarrow>
   levelRings settings = concat (map (\<lambda>j. map (ring_line settings j) [0..<catTotal settings]) [0..<nat \<lceil>b\<rceil>])"
  by (simp add: levelRings_def loop_indices_Some)

lemma levelLabels_JNum:
  "levels settings = JNum b \<Longrightarrow> levelLabels settings = map (level_label settings) [0..<nat \<lceil>b - 1\<rceil>]"
  by (simp add: levelLabels_def loop_indices_Some js_sub_def)

lemma filter_ring_levelRings: "filter is_ring_line (levelRings settings) = levelRings settings"
  by (simp add: levelRings_def filter_concat o_def ring_line_def is_ring_line_def Let_def)

lemma filter_ring_levelLabels: "filter is_ring_line (levelLabels settings) = []"
  by (simp add: levelLabels_def filter_map o_def level_label_def is_ring_line_def Let_def)

lemma filter_ring_category: "filter is_ring_line (categoryAxisElements settings) = []"
  by (simp add: categoryAxisElements_def filter_map o_def category_line_def category_label_def is_ring_line_def)

lemma filter_label_levelRings: "filter is_level_label (levelRings settings) = []"
  by (simp add: levelRings_def filter_concat filter_map o_def ring_line_def is_level_label_def Let_def)

lemma filter_label_levelLabels: "filter is_level_label (levelLabels settings) = levelLabels settings"
  by (simp add: levelLabels_def filter_map o_def level_label_def is_level_label_def Let_def)

lemma filter_label_category: "filter is_level_label (categoryAxisElements settings) = []"
  by (simp add: categoryAxisElements_def filter_map o_def category_line_def category_label_def is_level_label_def)

lemma axis_scene_rings:
  "truthy (getShowLevelAxis dataView) \<Longrightarrow> filter is_ring_line (axis_scene dataView settings) = levelRings settings"
  by (simp add: axis_scene_def filter_ring_levelRings filter_ring_levelLabels filter_ring_category)

lemma axis_scene_labels:
  "truthy (getShowLevelAxis dataView) \<Longrightarrow> filter is_level_label (axis_scene dataView settings) = levelLabels settings"
  by (simp add: axis_scene_def filter_label_levelRings filter_label_levelLabels filter_label_category)

lemma circle_identity:
  fixes a t w h :: real
  shows "(a * (1 - sin t) + (w - a) - w)\<^sup>2 + (a * (1 - cos t) + (h - a) - h)\<^sup>2 = a\<^sup>2"
proof -
  have x: "a * (1 - sin t) + (w - a) - w = - (a * sin t)"
    by (simp add: algebra_simps)
  have y: "a * (1 - cos t) + (h - a) - h = - (a * cos t)"
    by (simp add: algebra_simps)
  have "(a * sin t)\<^sup>2 + (a * cos t)\<^sup>2 = a\<^sup>2 * ((sin t)\<^sup>2 + (cos t)\<^sup>2)"
    unfolding power_mult_distrib distrib_left by (rule refl)
  also have "\<dots> = a\<^sup>2"
    by simp
  finally show ?thesis
    unfolding x y by simp
qed

lemma ring_line_fields:
  assumes "levels settings = JNum b" "b \<noteq> 0" "catTotal settings \<noteq> 0"
  shows "line_x1 (ring_line settings j i)
           = Some (radius settings * ((real j + 1) / b) * (1 - sin (real i * TwoPI / real (catTotal settings))))"
    and "line_y1 (ring_line settings j i)
           = Some (radius settings * ((real j + 1) / b) * (1 - cos (real i * TwoPI / real (catTotal settings))))"
    and "line_x2 (ring_line settings j i)
           = Some (radius settings * ((real j + 1) / b) * (1 - sin (real (i + 1) * TwoPI / real (catTotal settings))))"
    and "line_y2 (ring_line settings j i)
           = Some (radius settings * ((real j + 1) / b) * (1 - cos (real (i + 1) * TwoPI / real (catTotal settings))))"
    and "line_translate (ring_line settings j i)
           = (Some (width settings / 2 - radius settings * ((real j + 1) / b)),
              Some (height settings / 2 - radius settings * ((real j + 1) / b)))"
  using assms
  by (simp_all add: ring_line_def levelFactor_def angle_def Let_def Factor_def
      js_mul_def js_sub_def js_div_def js_sin_def js_cos_def)

lemma ring_line_on_circle:
  assumes "levels settings = JNum b" "b \<noteq> 0" "catTotal settings \<noteq> 0"
  shows "on_circle (width settings / 2, height settings / 2) (radius settings * ((real j + 1) / b))
           (line_x1 (ring_line settings j i)) (line_y1 (ring_line settings j i))
           (line_translate (ring_line settings j i))"
    and "on_circle (width settings / 2, height settings / 2) (radius settings * ((real j + 1) / b))
           (line_x2 (ring_line settings j i)) (line_y2 (ring_line settings j i))
           (line_translate (ring_line settings j i))"
  unfolding on_circle_def ring_line_fields [OF assms]
  by (simp_all only: option.case fst_conv snd_conv circle_identity)


lemma axis_scene_counts:
  assumes "truthy (getShowLevelAxis dataView)" and "levels settings = JNum b"
  shows "length (filter is_ring_line (axis_scene dataView settings)) = nat \<lceil>b\<rceil> * catTotal settings"
    and "length (filter is_level_label (axis_scene dataView settings)) = nat \<lceil>b - 1\<rceil>"
proof -
  have "length (concat (map (\<lambda>j. map (ring_line settings j) [0..<catTotal settings]) [0..<nat \<lceil>b\<rceil>]))
      = length [0..<nat \<lceil>b\<rceil>] * catTotal settings"
    by (rule length_concat_const) simp
  then show "length (filter is_ring_line (axis_scene dataView settings)) = nat \<lceil>b\<rceil> * catTotal settings"
    by (simp add: axis_scene_rings [OF assms(1)] levelRings_JNum [OF assms(2)])
  show "length (filter is_level_label (axis_scene dataView settings)) = nat \<lceil>b - 1\<rceil>"
    by (simp add: axis_scene_labels [OF assms(1)] levelLabels_JNum [OF assms(2)])
qed

lemma converter_styled: "converter styled_dataView sample_palette = Inr sample_data"
  by (simp add: converter_def styled_dataView_def sample_dataView_def sample_data_def sample_palette_def
      serieInput_def digit_def string_of_nat.simps Let_def)

text \<open>
  C6, as amended. When the level axis is shown and \<open>settings.levels\<close> is the number \<open>b\<close>,
  \<open>drawAxis\<close> appends the ring segments of the rings \<open>j\<close> below the ceiling of \<open>b\<close>, one for
  each category, the ends of a segment of ring \<open>j\<close> at distance
  \<open>settings.radius * (j + 1) / settings.levels\<close> from the centre of the viewport, and a
  level label for each \<open>j\<close> below the ceiling of \<open>b - 1\<close>, showing
  \<open>(j + 1) * settings.maxValue / settings.levels\<close> in the level format. For a whole number
  \<open>b\<close> of levels these are \<open>b\<close> times \<open>catTotal\<close> ring segments and \<open>b - 1\<close> labels (none for
  \<open>b = 0\<close>). \<open>settings.levels\<close> is what \<open>getSegmentsLevelAxis\<close> returns.
\<close>

theorem drawAxis_level_axis:
  assumes "this_settings this = Some settings"
    and "truthy (getShowLevelAxis (this_dataView this))"
    and "levels settings = JNum b"
  shows "\<exists>appended.
           drawAxis this = (None, this\<lparr>axisGraphicsContext := axisGraphicsContext this @ appended\<rparr>)
         \<and> filter is_ring_line appended
             = concat (map (\<lambda>j. map (ring_line settings j) [0..<catTotal settings]) [0..<nat \<lceil>b\<rceil>])
         \<and> length (filter is_ring_line appended) = nat \<lceil>b\<rceil> * catTotal settings
         \<and> (\<forall>j < nat \<lceil>b\<rceil>. \<forall>i < catTotal settings.
               on_circle (width settings / 2, height settings / 2) (radius settings * ((real j + 1) / b))
                 (line_x1 (ring_line settings j i)) (line_y1 (ring_line settings j i))
                 (line_translate (ring_line settings j i))
             \<and> on_circle (width settings / 2, height settings / 2) (radius settings * ((real j + 1) / b))
                 (line_x2 (ring_line settings j i)) (line_y2 (ring_line settings j i))
                 (line_translate (ring_line settings j i)))
         \<and> length (filter is_level_label appended) = nat \<lceil>b - 1\<rceil>
         \<and> map content (filter is_level_label appended)
             = map (\<lambda>j. levelsFormat settings (js_div (js_mul (Some (real j + 1)) (maxValue settings)) (Some b)))
                 [0..<nat \<lceil>b - 1\<rceil>]
         \<and> (\<forall>m j. maxValue settings = Some m \<and> b \<noteq> 0 \<longrightarrow>
               js_div (js_mul (Some (real j + 1)) (maxValue settings)) (Some b) = Some ((real j + 1) * m / b))
         \<and> (\<forall>n. b = real n \<longrightarrow> nat \<lceil>b\<rceil> = n \<and> nat \<lceil>b - 1\<rceil> = n - 1)
         \<and> (\<forall>d3_format dataView viewport' data'.
               levels (make_settings d3_format dataView viewport' data') = getSegmentsLevelAxis dataView
             \<and> levelsFormat (make_settings d3_format dataView viewport' data')
                 = d3_format (getFormatLevelAxis dataView))"
proof -
  let ?app = "axis_scene (this_dataView this) settings"
  have 1: "drawAxis this = (None, this\<lparr>axisGraphicsContext := axisGraphicsContext this @ ?app\<rparr>)"
    by (rule drawAxis_settings [OF assms(1)])
  have 2: "filter is_ring_line ?app
             = concat (map (\<lambda>j. map (ring_line settings j) [0..<catTotal settings]) [0..<nat \<lceil>b\<rceil>])"
    by (simp add: axis_scene_rings [OF assms(2)] levelRings_JNum [OF assms(3)])
  have 3: "length (filter is_ring_line ?app) = nat \<lceil>b\<rceil> * catTotal settings"
    by (rule axis_scene_counts [OF assms(2,3)])
  have 4: "on_circle (width settings / 2, height settings / 2) (radius settings * ((real j + 1) / b))
                 (line_x1 (ring_line settings j i)) (line_y1 (ring_line settings j i))
                 (line_translate (ring_line settings j i))
             \<and> on_circle (width settings / 2, height settings / 2) (radius settings * ((real j + 1) / b))
                 (line_x2 (ring_line settings j i)) (line_y2 (ring_line settings j i))
                 (line_translate (ring_line settings j i))"
    if "j < nat \<lceil>b\<rceil>" "i < catTotal settings" for j i
  proof -
    from that have "b \<noteq> 0" "catTotal settings \<noteq> 0" by auto
    then show ?thesis
      using ring_line_on_circle [OF assms(3)] by blast
  qed
  have 5: "filter is_level_label ?app = map (level_label settings) [0..<nat \<lceil>b - 1\<rceil>]"
    by (simp add: axis_scene_labels [OF assms(2)] levelLabels_JNum [OF assms(3)])
  have 6: "length (filter is_level_label ?app) = nat \<lceil>b - 1\<rceil>"
    unfolding 5 by simp
  have 7: "map content (filter is_level_label ?app)
             = map (\<lambda>j. levelsFormat settings (js_div (js_mul (Some (real j + 1)) (maxValue settings)) (Some b)))
                 [0..<nat \<lceil>b - 1\<rceil>]"
    unfolding 5 by (simp add: level_label_def Let_def assms(3))
  have 8: "\<forall>m j. maxValue settings = Some m \<and> b \<noteq> 0 \<longrightarrow>
               js_div (js_mul (Some (real j + 1)) (maxValue settings)) (Some b) = Some ((real j + 1) * m / b)"
    by (simp add: js_div_def js_mul_def)
  have 9: "\<forall>n. b = real n \<longrightarrow> nat \<lceil>b\<rceil> = n \<and> nat \<lceil>b - 1\<rceil> = n - 1"
    by (auto simp: nat_diff_distrib')
  have 10: "\<forall>d3_format dataView viewport' data'.
               levels (make_settings d3_format dataView viewport' data') = getSegmentsLevelAxis dataView
             \<and> levelsFormat (make_settings d3_format dataView viewport' data')
                 = d3_format (getFormatLevelAxis dataView)"
    by (simp add: make_settings_def Let_def)
  from 1 2 3 4 6 7 8 9 10 show ?thesis
    by (intro exI [of _ ?app] conjI allI impI) (assumption | blast)+
qed

lemma sample_settings_fields:
  "levels sample_settings = JNum 4" "catTotal sample_settings = 2"
  "levels styled_settings = JNum (5 / 2)" "catTotal styled_settings = 2"
  by (simp_all add: sample_settings_def styled_settings_def make_settings_def Let_def
      getSegmentsLevelAxis_def lookup_object_def get_prop_def sample_dataView_def styled_dataView_def
      sample_data_def)

lemma show_level_axis_samples:
  "truthy (getShowLevelAxis (Some sample_dataView))" "truthy (getShowLevelAxis (Some styled_dataView))"
  by (simp_all add: getShowLevelAxis_def lookup_object_def get_prop_def sample_dataView_def styled_dataView_def)

theorem drawAxis_level_axis_witness:
  "this_settings laid_out_state = Some sample_settings
   \<and> truthy (getShowLevelAxis (this_dataView laid_out_state))
   \<and> levels sample_settings = JNum 4
   \<and> fst (drawAxis laid_out_state) = None
   \<and> length (filter is_ring_line (axisGraphicsContext (snd (drawAxis laid_out_state)))) = 4 * catTotal sample_settings
   \<and> length (filter is_level_label (axisGraphicsContext (snd (drawAxis laid_out_state)))) = 3"
proof -
  have h1: "this_settings laid_out_state = Some sample_settings"
    by (simp add: laid_out_state_def)
  have dv: "this_dataView laid_out_state = Some sample_dataView"
    by (simp add: laid_out_state_def)
  have h2: "truthy (getShowLevelAxis (this_dataView laid_out_state))"
    by (simp add: dv show_level_axis_samples)
  have h3: "levels sample_settings = JNum 4"
    by (rule sample_settings_fields)
  have e: "axisGraphicsContext laid_out_state = []"
    by (simp add: laid_out_state_def init_def)
  from drawAxis_level_axis [OF h1 h2 h3] obtain appended where
    a: "drawAxis laid_out_state = (None, laid_out_state\<lparr>axisGraphicsContext := axisGraphicsContext laid_out_state @ appended\<rparr>)"
    and b: "length (filter is_ring_line appended) = nat \<lceil>4 :: real\<rceil> * catTotal sample_settings"
    and c: "length (filter is_level_label appended) = nat \<lceil>(4 :: real) - 1\<rceil>"
    by blast
  have n: "nat \<lceil>4 :: real\<rceil> = 4" "nat \<lceil>(4 :: real) - 1\<rceil> = 3"
    by simp_all
  show ?thesis
    using h1 h2 h3 b c by (simp add: a e n)
qed

text \<open>
  With \<open>segments\<close> set to 2.5 and two categories, the loops run for \<open>j = 0, 1, 2\<close> and for
  \<open>j = 0, 1\<close>: six ring segments and two labels, not 2.5 times 2 and 1.5.
\<close>

theorem drawAxis_fractional_levels_counterexample:
  "this_settings (snd (update sample_format (init sample_palette) styled_options)) = Some styled_settings
   \<and> levels styled_settings = getSegmentsLevelAxis (Some styled_dataView)
   \<and> levels styled_settings = JNum (5 / 2)
   \<and> catTotal styled_settings = 2
   \<and> truthy (getShowLevelAxis (Some styled_dataView))
   \<and> length (filter is_ring_line
        (axisGraphicsContext (snd (update sample_format (init sample_palette) styled_options)))) = 6
   \<and> length (filter is_level_label
        (axisGraphicsContext (snd (update sample_format (init sample_palette) styled_options)))) = 2"
proof -
  have h: "dataViews styled_options = Some (Some styled_dataView # [])"
    by (simp add: styled_options_def)
  have c: "converter styled_dataView (this_colors (init sample_palette)) = Inr sample_data"
    by (simp add: init_def converter_styled)
  have u: "update sample_format (init sample_palette) styled_options
         = (None, rendered sample_format (init sample_palette) styled_dataView sample_viewport sample_data)"
    using update_success [OF h c, of sample_format] by (simp add: styled_options_def)
  have s: "this_settings (rendered sample_format (init sample_palette) styled_dataView sample_viewport sample_data)
         = Some styled_settings"
    by (simp add: rendered_def styled_settings_def Let_def)
  have a: "axisGraphicsContext (rendered sample_format (init sample_palette) styled_dataView sample_viewport sample_data)
         = axis_scene (Some styled_dataView) styled_settings"
    by (simp add: rendered_def styled_settings_def Let_def)
  have g: "levels styled_settings = getSegmentsLevelAxis (Some styled_dataView)"
    by (simp add: styled_settings_def make_settings_def Let_def)
  have n: "nat \<lceil>5 / 2 :: real\<rceil> = 3" "nat \<lceil>(5 / 2 :: real) - 1\<rceil> = 2"
    by simp_all
  show ?thesis
    using axis_scene_counts [OF show_level_axis_samples(2) sample_settings_fields(3)]
    by (simp add: u s a g [symmetric] sample_settings_fields show_level_axis_samples n)
qed


section \<open>The coordinates of the data points\<close>

lemma coord_radial:
  assumes "maxValue settings = Some m" "m \<noteq> 0" "catTotal settings \<noteq> 0"
  shows "coordX settings v i = Some (radial_x (radius settings) v m i (catTotal settings))"
    and "coordY settings v i = Some (radial_y (radius settings) v m i (catTotal settings))"
  using assms
  by (simp_all add: coordX_def coordY_def radial_x_def radial_y_def angle_def Factor_def TwoPI_def
      js_mul_def js_sub_def js_div_def js_sin_def js_cos_def)

lemma length_dataValues_from: "length (dataValues_from settings k ps) = length ps"
  by (induction ps arbitrary: k) simp_all

lemma dataValues_from_nth:
  "i < length ps \<Longrightarrow>
   dataValues_from settings k ps ! i = (coordX settings (value (ps ! i)) (k + i), coordY settings (value (ps ! i)) (k + i))"
proof (induction ps arbitrary: k i)
  case Nil
  then show ?case by simp
next
  case (Cons p ps)
  show ?case
  proof (cases i)
    case 0
    then show ?thesis by simp
  next
    case (Suc i')
    with Cons.prems have "i' < length ps" by simp
    from Cons.IH [OF this, of "Suc k"] Suc show ?thesis by simp
  qed
qed

lemma length_nodes_from: "length (nodes_from settings k ps) = length ps"
  by (induction ps arbitrary: k) simp_all

lemma nodes_from_nth:
  "i < length ps \<Longrightarrow>
   nodes_from settings k ps ! i =
     SvgCircle (nodeRadius settings) (max (value (ps ! i)) 0)
       (coordX settings (value (ps ! i)) (k + i)) (coordY settings (value (ps ! i)) (k + i)) (color (ps ! i))"
proof (induction ps arbitrary: k i)
  case Nil
  then show ?case by simp
next
  case (Cons p ps)
  show ?case
  proof (cases i)
    case 0
    then show ?thesis by simp
  next
    case (Suc i')
    with Cons.prems have "i' < length ps" by simp
    from Cons.IH [OF this, of "Suc k"] Suc show ?thesis by simp
  qed
qed

lemma length_polygons: "length (polygons colors settings sers) = length sers"
  by (simp add: polygons_def)

lemma polygons_nth:
  "k < length sers \<Longrightarrow>
   points (polygons colors settings sers ! k)
     = dataValues_from settings 0 (data (sers ! k)) @ take 1 (dataValues_from settings 0 (data (sers ! k)))"
  by (simp add: polygons_def nth_enumerate_eq)

lemma data_scene_vertex:
  assumes "k < length (series d)" "i < length (data (series d ! k))"
  shows "points (data_scene colors dataView settings d ! k) ! i
       = (coordX settings (value (data (series d ! k) ! i)) i, coordY settings (value (data (series d ! k) ! i)) i)"
  using assms
  by (simp add: data_scene_def nth_append length_polygons polygons_nth length_dataValues_from
      dataValues_from_nth)

lemma data_scene_node:
  assumes "truthy (getShowNodes dataView)" "i < length (values d)"
  shows "data_scene colors dataView settings d ! (length (series d) + i)
       = SvgCircle (nodeRadius settings) (max (value (values d ! i)) 0)
           (coordX settings (value (values d ! i)) i) (coordY settings (value (values d ! i)) i)
           (color (values d ! i))"
  using assms
  by (simp add: data_scene_def nth_append length_polygons nodes_from_nth)

lemma concat_nth_uniform:
  "(\<And>xs. xs \<in> set xss \<Longrightarrow> length xs = n) \<Longrightarrow> i < length xss * n \<Longrightarrow>
   concat xss ! i = xss ! (i div n) ! (i mod n)"
proof (induction xss arbitrary: i)
  case Nil
  then show ?case by simp
next
  case (Cons xs xss)
  have l: "length xs = n" using Cons.prems(1) by simp
  show ?case
  proof (cases "i < n")
    case True
    then show ?thesis by (simp add: nth_append l)
  next
    case False
    then have ge: "n \<le> i" by simp
    have "i - n < length xss * n" using Cons.prems(2) ge by simp
    from Cons.IH [OF _ this] Cons.prems(1)
    have "concat xss ! (i - n) = xss ! ((i - n) div n) ! ((i - n) mod n)" by simp
    moreover have "0 < n" using Cons.prems(2) by (cases n) simp_all
    moreover from ge \<open>0 < n\<close> have "i div n = Suc ((i - n) div n)" "(i - n) mod n = i mod n"
      by (simp_all add: le_div_geq le_mod_geq [symmetric])
    ultimately show ?thesis using False by (simp add: nth_append l)
  qed
qed

lemma sin_cos_full_turns:
  "sin (x + real k * (2 * pi)) = sin x" "cos (x + real k * (2 * pi)) = cos x"
proof -
  have e: "real k * (2 * pi) = real (2 * k) * pi"
    by simp
  have s0: "sin (real k * (2 * pi)) = 0"
    unfolding e by (rule sin_npi)
  have c1: "cos (real k * (2 * pi)) = 1"
    unfolding e cos_npi by simp
  show "sin (x + real k * (2 * pi)) = sin x" "cos (x + real k * (2 * pi)) = cos x"
    by (simp_all only: sin_add cos_add s0 c1 mult_1_right mult_zero_right add_0_right diff_zero)
qed

lemma sin_cos_index_mod:
  assumes "0 < n"
  shows "sin (real i * (2 * pi) / real n) = sin (real (i mod n) * (2 * pi) / real n)"
    and "cos (real i * (2 * pi) / real n) = cos (real (i mod n) * (2 * pi) / real n)"
proof -
  have "real i = real (i mod n) + real (i div n) * real n"
    by (metis add.commute mult.commute mult_div_mod_eq of_nat_add of_nat_mult)
  then have e: "real i * (2 * pi) / real n
           = real (i mod n) * (2 * pi) / real n + real (i div n) * (2 * pi)"
    using assms by (simp add: field_simps)
  show "sin (real i * (2 * pi) / real n) = sin (real (i mod n) * (2 * pi) / real n)"
    and "cos (real i * (2 * pi) / real n) = cos (real (i mod n) * (2 * pi) / real n)"
    unfolding e by (rule sin_cos_full_turns)+
qed


lemma length_created_points: "length (created_points colors cols k) = length (col_values (cols ! k))"
  by (simp add: created_points_def)

lemma created_points_categoryIndex:
  "i < length (created_points colors cols k) \<Longrightarrow> categoryIndex (created_points colors cols k ! i) = i"
  by (simp add: created_points_def)

lemma converter_series_categoryIndex:
  assumes "converter dataView colors = Inr d" "k < length (series d)" "i < length (data (series d ! k))"
  shows "categoryIndex (data (series d ! k) ! i) = i"
proof -
  from assms(2) have "series d ! k \<in> set (series d)" by simp
  then obtain x where "data (series d ! k) = created_points colors (value_columns dataView) x"
    unfolding converter_Inr(1) [OF assms(1)] by (auto simp: serieInput_def)
  with assms(3) show ?thesis
    by (simp add: created_points_categoryIndex)
qed

lemma converter_values_categoryIndex:
  assumes "converter dataView colors = Inr d"
    and "\<forall>c \<in> set (value_columns dataView). length (col_values c) = n"
    and "i < length (values d)"
  shows "categoryIndex (values d ! i) = i mod n"
proof -
  let ?cols = "value_columns dataView"
  let ?xss = "map (created_points colors ?cols) [0..<length ?cols]"
  have v: "values d = concat ?xss"
    by (rule converter_Inr(2) [OF assms(1)])
  have u: "length xs = n" if "xs \<in> set ?xss" for xs
    using that assms(2) by (auto simp: length_created_points)
  have l: "length (concat ?xss) = length ?xss * n"
    using length_concat_const [of "[0..<length ?cols]" "created_points colors ?cols" n] assms(2)
    by (simp add: length_created_points)
  have i: "i < length ?xss * n"
    using assms(3) unfolding v l .
  then have n: "0 < n" by (cases n) simp_all
  from i have q: "i div n < length ?cols"
    by (simp add: less_mult_imp_div_less)
  have m: "i mod n < length (created_points colors ?cols (i div n))"
    using n q assms(2) by (simp add: length_created_points)
  have "values d ! i = ?xss ! (i div n) ! (i mod n)"
    unfolding v using u i by (rule concat_nth_uniform)
  also have "\<dots> = created_points colors ?cols (i div n) ! (i mod n)"
    using q by simp
  finally show ?thesis
    using m by (simp add: created_points_categoryIndex)
qed

lemma radial_index_mod:
  assumes "0 < n"
  shows "radial_x rad v m i n = radial_x rad v m (i mod n) n"
    and "radial_y rad v m i n = radial_y rad v m (i mod n) n"
  unfolding radial_x_def radial_y_def
  by (simp_all only: sin_cos_index_mod [OF assms, of i])

lemma rendered_fields:
  "this_settings (rendered d3_format this dataView viewport' d) = Some (make_settings d3_format (Some dataView) viewport' d)"
  "dataGraphicsContext (rendered d3_format this dataView viewport' d)
     = data_scene (this_colors this) (Some dataView) (make_settings d3_format (Some dataView) viewport' d) d"
  "axisGraphicsContext (rendered d3_format this dataView viewport' d)
     = axis_scene (Some dataView) (make_settings d3_format (Some dataView) viewport' d)"
  by (simp_all add: rendered_def Let_def)

text \<open>
  C1, as amended. After an \<open>update\<close> that \<open>converter\<close> accepts, with \<open>maxValue\<close> a number other
  than 0 and at least one category, every data point \<open>p\<close> is rendered at
  \<open>radius * (1 - (max(p.value, 0) / maxValue) * sin(i * 2\<pi> / catTotal))\<close> and the same
  with the cosine: a negative value is drawn as 0. For the vertex of the polygon of its
  series, \<open>i\<close> is the category index of \<open>p\<close>. For the node centre, \<open>i\<close> is the position of
  \<open>p\<close> in \<open>data.values\<close>, which gives the coordinates of the category index when
  every value column has \<open>catTotal\<close> values. Arithmetic is over the reals.
\<close>

theorem data_point_coordinates:
  assumes "dataViews options = Some (Some dataView # rest)"
    and "converter dataView (this_colors this) = Inr d"
    and "this_settings (snd (update d3_format this options)) = Some settings"
    and "maxValue settings = Some m" and "m \<noteq> 0" and "catTotal settings \<noteq> 0"
  shows "(\<forall>k < length (series d). \<forall>i < length (data (series d ! k)).
            categoryIndex (data (series d ! k) ! i) = i
          \<and> points (dataGraphicsContext (snd (update d3_format this options)) ! k) ! i
              = (Some (radial_x (radius settings) (value (data (series d ! k) ! i)) m i (catTotal settings)),
                 Some (radial_y (radius settings) (value (data (series d ! k) ! i)) m i (catTotal settings))))
       \<and> (truthy (getShowNodes (Some dataView)) \<longrightarrow>
            (\<forall>i < length (values d).
               cx (dataGraphicsContext (snd (update d3_format this options)) ! (length (series d) + i))
                 = Some (radial_x (radius settings) (value (values d ! i)) m i (catTotal settings))
             \<and> cy (dataGraphicsContext (snd (update d3_format this options)) ! (length (series d) + i))
                 = Some (radial_y (radius settings) (value (values d ! i)) m i (catTotal settings))))
       \<and> ((\<forall>c \<in> set (value_columns dataView). length (col_values c) = catTotal settings) \<longrightarrow>
            (\<forall>i < length (values d).
               radial_x (radius settings) (value (values d ! i)) m i (catTotal settings)
                 = radial_x (radius settings) (value (values d ! i)) m (categoryIndex (values d ! i)) (catTotal settings)
             \<and> radial_y (radius settings) (value (values d ! i)) m i (catTotal settings)
                 = radial_y (radius settings) (value (values d ! i)) m (categoryIndex (values d ! i)) (catTotal settings)))
       \<and> maxValue settings = d3_max (map value (values d))
       \<and> catTotal settings = length (categories d)"
proof -
  let ?after = "snd (update d3_format this options)"
  have u: "update d3_format this options = (None, rendered d3_format this dataView (viewport options) d)"
    by (rule update_success [OF assms(1,2)])
  have s: "settings = make_settings d3_format (Some dataView) (viewport options) d"
    using assms(3) by (simp add: u rendered_fields)
  have g: "dataGraphicsContext ?after = data_scene (this_colors this) (Some dataView) settings d"
    by (simp add: u rendered_fields s)
  note cr = coord_radial [OF assms(4,5,6)]
  have 1: "categoryIndex (data (series d ! k) ! i) = i
          \<and> points (dataGraphicsContext ?after ! k) ! i
              = (Some (radial_x (radius settings) (value (data (series d ! k) ! i)) m i (catTotal settings)),
                 Some (radial_y (radius settings) (value (data (series d ! k) ! i)) m i (catTotal settings)))"
    if "k < length (series d)" "i < length (data (series d ! k))" for k i
    using that by (simp add: g data_scene_vertex cr converter_series_categoryIndex [OF assms(2)])
  have 2: "cx (dataGraphicsContext ?after ! (length (series d) + i))
                 = Some (radial_x (radius settings) (value (values d ! i)) m i (catTotal settings))
             \<and> cy (dataGraphicsContext ?after ! (length (series d) + i))
                 = Some (radial_y (radius settings) (value (values d ! i)) m i (catTotal settings))"
    if "truthy (getShowNodes (Some dataView))" "i < length (values d)" for i
    using that by (simp add: g data_scene_node cr)
  have 3: "radial_x (radius settings) (value (values d ! i)) m i (catTotal settings)
                 = radial_x (radius settings) (value (values d ! i)) m (categoryIndex (values d ! i)) (catTotal settings)
             \<and> radial_y (radius settings) (value (values d ! i)) m i (catTotal settings)
                 = radial_y (radius settings) (value (values d ! i)) m (categoryIndex (values d ! i)) (catTotal settings)"
    if "\<forall>c \<in> set (value_columns dataView). length (col_values c) = catTotal settings" "i < length (values d)" for i
  proof -
    have c: "categoryIndex (values d ! i) = i mod catTotal settings"
      by (rule converter_values_categoryIndex [OF assms(2) that])
    have p: "0 < catTotal settings" using assms(6) by simp
    show ?thesis
      unfolding c using radial_index_mod [OF p] by blast
  qed
  have 4: "maxValue settings = d3_max (map value (values d))" "catTotal settings = length (categories d)"
    by (simp_all add: s make_settings_def Let_def)
  from 1 2 3 4 show ?thesis
    by (intro conjI allI impI) (assumption | blast)+
qed

lemma sample_settings_scale:
  "radius sample_settings = 85" "maxValue sample_settings = Some 4"
  by (simp_all add: sample_settings_def make_settings_def Let_def Factor_def MarginFactor_def
      sample_viewport_def sample_data_def)

lemma show_nodes_sample: "truthy (getShowNodes (Some sample_dataView))"
  by (simp add: getShowNodes_def lookup_object_def sample_dataView_def)

lemma update_sample:
  "update sample_format (init sample_palette) sample_options
     = (None, rendered sample_format (init sample_palette) sample_dataView sample_viewport sample_data)"
proof -
  have h: "dataViews sample_options = Some (Some sample_dataView # [])"
    by (simp add: sample_options_def)
  have c: "converter sample_dataView (this_colors (init sample_palette)) = Inr sample_data"
    by (simp add: init_def converter_sample)
  show ?thesis
    using update_success [OF h c, of sample_format] by (simp add: sample_options_def)
qed

theorem data_point_coordinates_witness:
  "dataViews sample_options = Some [Some sample_dataView]
   \<and> converter sample_dataView (this_colors (init sample_palette)) = Inr sample_data
   \<and> this_settings (snd (update sample_format (init sample_palette) sample_options)) = Some sample_settings
   \<and> maxValue sample_settings = Some 4
   \<and> catTotal sample_settings = 2
   \<and> truthy (getShowNodes (Some sample_dataView))
   \<and> value (data (series sample_data ! 0) ! 1) = - 2
   \<and> points (dataGraphicsContext (snd (update sample_format (init sample_palette) sample_options)) ! 0) ! 1
       = (Some (radial_x (radius sample_settings) (value (data (series sample_data ! 0) ! 1)) 4 1 (catTotal sample_settings)),
          Some (radial_y (radius sample_settings) (value (data (series sample_data ! 0) ! 1)) 4 1 (catTotal sample_settings)))
   \<and> cy (dataGraphicsContext (snd (update sample_format (init sample_palette) sample_options))
            ! (length (series sample_data) + 1))
       = Some (radial_y (radius sample_settings) (value (values sample_data ! 1)) 4 1 (catTotal sample_settings))
   \<and> map (\<lambda>c. length (col_values c)) (value_columns sample_dataView) = [2, 2]
   \<and> categoryIndex (values sample_data ! 3) = 1
   \<and> radial_y (radius sample_settings) (value (values sample_data ! 3)) 4 3 (catTotal sample_settings)
       = radial_y (radius sample_settings) (value (values sample_data ! 3)) 4
           (categoryIndex (values sample_data ! 3)) (catTotal sample_settings)"
proof -
  have h1: "dataViews sample_options = Some (Some sample_dataView # [])"
    by (simp add: sample_options_def)
  have h2: "converter sample_dataView (this_colors (init sample_palette)) = Inr sample_data"
    by (simp add: init_def converter_sample)
  have h3: "this_settings (snd (update sample_format (init sample_palette) sample_options)) = Some sample_settings"
    by (simp add: update_sample rendered_fields sample_settings_def)
  have h4: "maxValue sample_settings = Some 4"
    by (rule sample_settings_scale)
  have h5: "(4 :: real) \<noteq> 0"
    by simp
  have h6: "catTotal sample_settings \<noteq> 0"
    by (simp add: sample_settings_fields)
  note t = data_point_coordinates [OF h1 h2 h3 h4 h5 h6]
  have l: "0 < length (series sample_data)" "1 < length (data (series sample_data ! 0))"
      "1 < length (values sample_data)"
    by (simp_all add: sample_data_def)
  have v: "value (data (series sample_data ! 0) ! 1) = - 2"
    by (simp add: sample_data_def)
  note a = t [THEN conjunct1, rule_format, OF l(1) l(2), THEN conjunct2]
  note b = t [THEN conjunct2, THEN conjunct1, rule_format, OF show_nodes_sample l(3), THEN conjunct2]
  have u: "length (col_values c) = catTotal sample_settings" if "c \<in> set (value_columns sample_dataView)" for c
    using that by (auto simp: sample_settings_fields value_columns_def sample_dataView_def)
  have l3: "3 < length (values sample_data)"
    by (simp add: sample_data_def)
  note c = t [THEN conjunct2, THEN conjunct2, THEN conjunct1, rule_format, OF u l3, THEN conjunct2]
  have m: "map (\<lambda>c. length (col_values c)) (value_columns sample_dataView) = [2, 2]"
    by (simp add: value_columns_def sample_dataView_def)
  have ci: "categoryIndex (values sample_data ! 3) = 1"
    by (simp add: sample_data_def)
  show ?thesis
    using h1 h2 h3 h4 sample_settings_fields(2) show_nodes_sample v a b m ci c
    by (intro conjI) simp_all
qed

text \<open>
  The point of value -2 at category index 1 of two categories, with maximum 4 and
  radius 85: the second coordinate of its node and of its polygon vertex is 85, where
  the formula without the clamp gives 42.5.
\<close>

theorem data_point_negative_value_counterexample:
  "value (values sample_data ! 1) = - 2
   \<and> categoryIndex (values sample_data ! 1) = 1
   \<and> radius sample_settings = 85
   \<and> maxValue sample_settings = Some 4
   \<and> catTotal sample_settings = 2
   \<and> cy (dataGraphicsContext (snd (update sample_format (init sample_palette) sample_options))
            ! (length (series sample_data) + 1)) = Some 85
   \<and> snd (points (dataGraphicsContext (snd (update sample_format (init sample_palette) sample_options)) ! 0) ! 1)
       = Some 85
   \<and> radius sample_settings
         * (1 - (value (values sample_data ! 1) / 4)
                * cos (real (categoryIndex (values sample_data ! 1)) * (2 * pi) / real (catTotal sample_settings)))
       = 85 / 2"
proof -
  have i: "this_colors (init sample_palette) = sample_palette"
    by (simp add: init_def)
  have g: "dataGraphicsContext (snd (update sample_format (init sample_palette) sample_options))
         = data_scene sample_palette (Some sample_dataView) sample_settings sample_data"
    by (simp add: update_sample rendered_fields sample_settings_def i)
  have l: "0 < length (series sample_data)" "1 < length (data (series sample_data ! 0))"
      "1 < length (values sample_data)"
    by (simp_all add: sample_data_def)
  have v: "value (values sample_data ! 1) = - 2" "categoryIndex (values sample_data ! 1) = 1"
      "value (data (series sample_data ! 0) ! 1) = - 2"
    by (simp_all add: sample_data_def)
  have c: "catTotal sample_settings \<noteq> 0"
    by (simp add: sample_settings_fields)
  have z: "(4 :: real) \<noteq> 0"
    by simp
  note cr = coord_radial [OF sample_settings_scale(2) z c]
  have v': "value (values sample_data ! Suc 0) = - 2" "value (data (series sample_data ! 0) ! Suc 0) = - 2"
    by (simp_all add: sample_data_def)
  have y: "radial_y 85 (- 2) 4 (Suc 0) 2 = 85"
    by (simp add: radial_y_def)
  have n: "cy (data_scene sample_palette (Some sample_dataView) sample_settings sample_data
                ! (length (series sample_data) + 1)) = Some 85"
    unfolding data_scene_node [OF show_nodes_sample l(3)]
    by (simp add: cr v' sample_settings_scale sample_settings_fields y)
  have p: "snd (points (data_scene sample_palette (Some sample_dataView) sample_settings sample_data ! 0) ! 1)
         = Some 85"
    unfolding data_scene_vertex [OF l(1) l(2)]
    by (simp add: cr v' sample_settings_scale sample_settings_fields y)
  have f: "(85 :: real) * (1 - (- 2 / 4) * cos (real 1 * (2 * pi) / real 2)) = 85 / 2"
    by simp
  show ?thesis
    using f n p v by (simp add: g sample_settings_scale sample_settings_fields)
qed


section \<open>The maximum value scales the data scene\<close>

lemma d3_max_Max: "xs \<noteq> [] \<Longrightarrow> d3_max xs = Some (Max (set xs))"
proof (cases xs)
  case Nil
  assume "xs \<noteq> []"
  with Nil show ?thesis by simp
next
  case (Cons a bs)
  show ?thesis
    using Max.set_eq_fold [of a bs] by (simp add: Cons)
qed

text \<open>
  C2. For every \<open>update\<close> call whose converted data has a non-empty \<open>values\<close> list,
  \<open>settings.maxValue\<close> is the maximum of \<open>p.value\<close> over all data points \<open>p\<close> of
  \<open>data.values\<close>, and this value scales all radial positions: every vertex of every
  polygon and every node centre of the drawn scene is
  \<open>radius * (1 - (max(value, 0) / maximum) * Factor * sin(angle))\<close>, or the same with the
  cosine, for the value of its data point; over the reals, when the maximum is not 0
  and there is a category.
\<close>

theorem update_maxValue:
  assumes "dataViews options = Some (Some dataView # rest)"
    and "converter dataView (this_colors this) = Inr d"
    and "values d \<noteq> []"
  shows "\<exists>settings.
           this_settings (snd (update d3_format this options)) = Some settings
         \<and> maxValue settings = Some (Max (value ` set (values d)))
         \<and> (\<forall>p \<in> set (values d). value p \<le> Max (value ` set (values d)))
         \<and> (\<forall>k < length (series d). \<forall>i < length (data (series d ! k)).
               points (dataGraphicsContext (snd (update d3_format this options)) ! k) ! i
                 = (js_mul (Some (radius settings))
                      (js_sub (Some 1)
                         (js_mul (js_mul (js_div (Some (max (value (data (series d ! k) ! i)) 0))
                                            (Some (Max (value ` set (values d)))))
                                    (Some Factor))
                            (js_sin (angle settings i)))),
                    js_mul (Some (radius settings))
                      (js_sub (Some 1)
                         (js_mul (js_mul (js_div (Some (max (value (data (series d ! k) ! i)) 0))
                                            (Some (Max (value ` set (values d)))))
                                    (Some Factor))
                            (js_cos (angle settings i))))))
         \<and> (truthy (getShowNodes (Some dataView)) \<longrightarrow>
              (\<forall>i < length (values d).
                 cx (dataGraphicsContext (snd (update d3_format this options)) ! (length (series d) + i))
                   = js_mul (Some (radius settings))
                       (js_sub (Some 1)
                          (js_mul (js_mul (js_div (Some (max (value (values d ! i)) 0))
                                             (Some (Max (value ` set (values d)))))
                                     (Some Factor))
                             (js_sin (angle settings i))))
               \<and> cy (dataGraphicsContext (snd (update d3_format this options)) ! (length (series d) + i))
                   = js_mul (Some (radius settings))
                       (js_sub (Some 1)
                          (js_mul (js_mul (js_div (Some (max (value (values d ! i)) 0))
                                             (Some (Max (value ` set (values d)))))
                                     (Some Factor))
                             (js_cos (angle settings i))))))
         \<and> (Max (value ` set (values d)) \<noteq> 0 \<and> catTotal settings \<noteq> 0 \<longrightarrow>
              (\<forall>k < length (series d). \<forall>i < length (data (series d ! k)).
                 points (dataGraphicsContext (snd (update d3_format this options)) ! k) ! i
                   = (Some (radial_x (radius settings) (value (data (series d ! k) ! i))
                              (Max (value ` set (values d))) i (catTotal settings)),
                      Some (radial_y (radius settings) (value (data (series d ! k) ! i))
                              (Max (value ` set (values d))) i (catTotal settings))))
            \<and> (truthy (getShowNodes (Some dataView)) \<longrightarrow>
                 (\<forall>i < length (values d).
                    cx (dataGraphicsContext (snd (update d3_format this options)) ! (length (series d) + i))
                      = Some (radial_x (radius settings) (value (values d ! i))
                                (Max (value ` set (values d))) i (catTotal settings))
                  \<and> cy (dataGraphicsContext (snd (update d3_format this options)) ! (length (series d) + i))
                      = Some (radial_y (radius settings) (value (values d ! i))
                                (Max (value ` set (values d))) i (catTotal settings)))))"
proof -
  let ?s = "make_settings d3_format (Some dataView) (viewport options) d"
  let ?M = "Max (value ` set (values d))"
  let ?after = "snd (update d3_format this options)"
  have u: "update d3_format this options = (None, rendered d3_format this dataView (viewport options) d)"
    by (rule update_success [OF assms(1,2)])
  have m: "maxValue ?s = Some ?M"
    using assms(3) by (simp add: make_settings_def Let_def d3_max_Max)
  have st: "this_settings ?after = Some ?s"
    by (simp add: u rendered_fields)
  have g: "dataGraphicsContext ?after = data_scene (this_colors this) (Some dataView) ?s d"
    by (simp add: u rendered_fields)
  have le: "\<forall>p \<in> set (values d). value p \<le> ?M"
    by simp
  have cX: "coordX ?s v i = js_mul (Some (radius ?s))
                 (js_sub (Some 1)
                    (js_mul (js_mul (js_div (Some (max v 0)) (Some ?M)) (Some Factor))
                       (js_sin (angle ?s i))))" for v i
    unfolding coordX_def m by (rule refl)
  have cY: "coordY ?s v i = js_mul (Some (radius ?s))
                 (js_sub (Some 1)
                    (js_mul (js_mul (js_div (Some (max v 0)) (Some ?M)) (Some Factor))
                       (js_cos (angle ?s i))))" for v i
    unfolding coordY_def m by (rule refl)
  have vtx: "points (dataGraphicsContext ?after ! k) ! i
                 = (coordX ?s (value (data (series d ! k) ! i)) i, coordY ?s (value (data (series d ! k) ! i)) i)"
    if "k < length (series d)" "i < length (data (series d ! k))" for k i
    unfolding g by (rule data_scene_vertex [OF that])
  have node: "cx (dataGraphicsContext ?after ! (length (series d) + i)) = coordX ?s (value (values d ! i)) i
            \<and> cy (dataGraphicsContext ?after ! (length (series d) + i)) = coordY ?s (value (values d ! i)) i"
    if "truthy (getShowNodes (Some dataView))" "i < length (values d)" for i
    unfolding g data_scene_node [OF that] by simp
  have 4: "\<forall>k < length (series d). \<forall>i < length (data (series d ! k)).
               points (dataGraphicsContext ?after ! k) ! i
                 = (js_mul (Some (radius ?s))
                      (js_sub (Some 1)
                         (js_mul (js_mul (js_div (Some (max (value (data (series d ! k) ! i)) 0)) (Some ?M))
                                    (Some Factor))
                            (js_sin (angle ?s i)))),
                    js_mul (Some (radius ?s))
                      (js_sub (Some 1)
                         (js_mul (js_mul (js_div (Some (max (value (data (series d ! k) ! i)) 0)) (Some ?M))
                                    (Some Factor))
                            (js_cos (angle ?s i)))))"
    using vtx unfolding cX cY by blast
  have 5: "truthy (getShowNodes (Some dataView)) \<longrightarrow>
              (\<forall>i < length (values d).
                 cx (dataGraphicsContext ?after ! (length (series d) + i))
                   = js_mul (Some (radius ?s))
                       (js_sub (Some 1)
                          (js_mul (js_mul (js_div (Some (max (value (values d ! i)) 0)) (Some ?M)) (Some Factor))
                             (js_sin (angle ?s i))))
               \<and> cy (dataGraphicsContext ?after ! (length (series d) + i))
                   = js_mul (Some (radius ?s))
                       (js_sub (Some 1)
                          (js_mul (js_mul (js_div (Some (max (value (values d ! i)) 0)) (Some ?M)) (Some Factor))
                             (js_cos (angle ?s i)))))"
    using node unfolding cX cY by blast
  have 6: "(\<forall>k < length (series d). \<forall>i < length (data (series d ! k)).
                 points (dataGraphicsContext ?after ! k) ! i
                   = (Some (radial_x (radius ?s) (value (data (series d ! k) ! i)) ?M i (catTotal ?s)),
                      Some (radial_y (radius ?s) (value (data (series d ! k) ! i)) ?M i (catTotal ?s))))
            \<and> (truthy (getShowNodes (Some dataView)) \<longrightarrow>
                 (\<forall>i < length (values d).
                    cx (dataGraphicsContext ?after ! (length (series d) + i))
                      = Some (radial_x (radius ?s) (value (values d ! i)) ?M i (catTotal ?s))
                  \<and> cy (dataGraphicsContext ?after ! (length (series d) + i))
                      = Some (radial_y (radius ?s) (value (values d ! i)) ?M i (catTotal ?s))))"
    if nz: "?M \<noteq> 0 \<and> catTotal ?s \<noteq> 0"
  proof -
    from nz have a: "?M \<noteq> 0" and b: "catTotal ?s \<noteq> 0" by blast+
    note cr = coord_radial [OF m a b]
    show ?thesis
      using vtx node unfolding cr by blast
  qed
  from st m le 4 5 6 show ?thesis
    by (intro exI [of _ ?s] conjI impI) (assumption | blast)+
qed

theorem update_maxValue_witness:
  "dataViews sample_options = Some [Some sample_dataView]
   \<and> converter sample_dataView (this_colors (init sample_palette)) = Inr sample_data
   \<and> values sample_data \<noteq> []
   \<and> Max (value ` set (values sample_data)) = 4
   \<and> map_option maxValue (this_settings (snd (update sample_format (init sample_palette) sample_options)))
       = Some (Some 4)
   \<and> truthy (getShowNodes (Some sample_dataView))
   \<and> value (values sample_data ! 0) = 1
   \<and> value (data (series sample_data ! 0) ! 0) = 1
   \<and> cy (dataGraphicsContext (snd (update sample_format (init sample_palette) sample_options))
            ! (length (series sample_data) + 0)) = Some (255 / 4)
   \<and> points (dataGraphicsContext (snd (update sample_format (init sample_palette) sample_options)) ! 0) ! 0
       = (Some 85, Some (255 / 4))"
proof -
  let ?after = "snd (update sample_format (init sample_palette) sample_options)"
  have h1: "dataViews sample_options = Some (Some sample_dataView # [])"
    by (simp add: sample_options_def)
  have h2: "converter sample_dataView (this_colors (init sample_palette)) = Inr sample_data"
    by (simp add: init_def converter_sample)
  have h3: "values sample_data \<noteq> []"
    by (simp add: sample_data_def)
  have mx: "Max (value ` set (values sample_data)) = 4"
    by (simp add: sample_data_def)
  have ss: "this_settings ?after = Some sample_settings"
    by (simp add: update_sample rendered_fields sample_settings_def)
  have l: "0 < length (series sample_data)" "0 < length (data (series sample_data ! 0))"
      "0 < length (values sample_data)"
    by (simp_all add: sample_data_def)
  have v: "value (values sample_data ! 0) = 1" "value (data (series sample_data ! 0) ! 0) = 1"
    by (simp_all add: sample_data_def)
  from update_maxValue [OF h1 h2 h3, of sample_format] obtain settings where
    s1: "this_settings ?after = Some settings"
    and s2: "maxValue settings = Some (Max (value ` set (values sample_data)))"
    and s4: "\<forall>k < length (series sample_data). \<forall>i < length (data (series sample_data ! k)).
               points (dataGraphicsContext ?after ! k) ! i
                 = (js_mul (Some (radius settings))
                      (js_sub (Some 1)
                         (js_mul (js_mul (js_div (Some (max (value (data (series sample_data ! k) ! i)) 0))
                                            (Some (Max (value ` set (values sample_data)))))
                                    (Some Factor))
                            (js_sin (angle settings i)))),
                    js_mul (Some (radius settings))
                      (js_sub (Some 1)
                         (js_mul (js_mul (js_div (Some (max (value (data (series sample_data ! k) ! i)) 0))
                                            (Some (Max (value ` set (values sample_data)))))
                                    (Some Factor))
                            (js_cos (angle settings i)))))"
    and s5: "truthy (getShowNodes (Some sample_dataView)) \<longrightarrow>
              (\<forall>i < length (values sample_data).
                 cx (dataGraphicsContext ?after ! (length (series sample_data) + i))
                   = js_mul (Some (radius settings))
                       (js_sub (Some 1)
                          (js_mul (js_mul (js_div (Some (max (value (values sample_data ! i)) 0))
                                             (Some (Max (value ` set (values sample_data)))))
                                     (Some Factor))
                             (js_sin (angle settings i))))
               \<and> cy (dataGraphicsContext ?after ! (length (series sample_data) + i))
                   = js_mul (Some (radius settings))
                       (js_sub (Some 1)
                          (js_mul (js_mul (js_div (Some (max (value (values sample_data ! i)) 0))
                                             (Some (Max (value ` set (values sample_data)))))
                                     (Some Factor))
                             (js_cos (angle settings i)))))"
    by (elim exE conjE)
  from s1 ss have e: "settings = sample_settings"
    by simp
  have a0: "angle sample_settings 0 = Some 0"
    by (simp add: angle_def sample_settings_fields js_mul_def js_div_def)
  have calc: "js_mul (Some (radius sample_settings))
                (js_sub (Some 1) (js_mul (js_mul (js_div (Some (max 1 0)) (Some 4)) (Some Factor))
                   (js_cos (angle sample_settings 0)))) = Some (255 / 4)"
      "js_mul (Some (radius sample_settings))
                (js_sub (Some 1) (js_mul (js_mul (js_div (Some (max 1 0)) (Some 4)) (Some Factor))
                   (js_sin (angle sample_settings 0)))) = Some 85"
    by (simp_all add: a0 sample_settings_scale Factor_def js_mul_def js_sub_def js_div_def
        js_sin_def js_cos_def)
  have n: "cy (dataGraphicsContext ?after ! (length (series sample_data) + 0)) = Some (255 / 4)"
    using s5 [rule_format, OF show_nodes_sample l(3), THEN conjunct2]
    unfolding e mx v calc .
  have p: "points (dataGraphicsContext ?after ! 0) ! 0 = (Some 85, Some (255 / 4))"
    using s4 [rule_format, OF l(1) l(2)]
    unfolding e mx v calc .
  have ms: "map_option maxValue (this_settings ?after) = Some (Some 4)"
    using s2 unfolding s1 mx by simp
  from h1 h2 h3 mx ms show_nodes_sample v n p show ?thesis
    by (intro conjI) simp_all
qed

end
